theory Spec2Isabelle
  imports Main "HOL-Library.Word"
begin

unbundle bit_operations_syntax

section \<open>Data model of libbcachefs/super.c\<close>

text \<open>
  The filesystem instance (struct bch_fs), its member devices (struct bch_dev) and the
  superblock are records; enums are datatypes; the flag word \<open>c->flags\<close> is the set of
  bits that are set. Functions of super.c that mutate \<open>c\<close> take the instance and return
  the updated one. A \<open>const char *\<close> error is a \<open>string option\<close> (\<open>None\<close> is NULL), an
  \<open>int\<close> return code is an \<open>errno option\<close> (\<open>None\<close> is 0). A kernel BUG or a
  division trap is the outer \<open>None\<close> of an option-valued function.

  Calls into other files (allocator, journal, garbage collection, tiering, superblock I/O)
  append an event to \<open>trace\<close>, so that the order of the calls can be stated, and change
  the part of the state they own. Their return codes come from an \<open>env\<close> record.
\<close>

datatype bch_fs_state = BCH_FS_STARTING | BCH_FS_STOPPING | BCH_FS_RO | BCH_FS_RW

datatype bch_member_state =
  BCH_MEMBER_STATE_RW | BCH_MEMBER_STATE_RO | BCH_MEMBER_STATE_FAILED | BCH_MEMBER_STATE_SPARE

datatype fs_flag =
  BCH_FS_ALLOC_READ_DONE | BCH_FS_ERROR | BCH_FS_EMERGENCY_RO | BCH_FS_WRITE_DISABLE_COMPLETE

datatype force_flag =
  BCH_FORCE_IF_DATA_LOST | BCH_FORCE_IF_METADATA_LOST
  | BCH_FORCE_IF_DATA_DEGRADED | BCH_FORCE_IF_METADATA_DEGRADED

datatype errno = ENOMEM | EINVAL | ENOSPC | EIO

text \<open>The values of \<open>ret\<close> that \<open>__bch2_fs_start\<close> tells apart: 0, the fsck codes,
  \<open>-ENOMEM\<close>, \<open>-EIO\<close>, and any other code.\<close>

datatype retcode =
  RET_OK | BCH_FSCK_ERRORS_NOT_FIXED | BCH_FSCK_REPAIR_UNIMPLEMENTED
  | BCH_FSCK_REPAIR_IMPOSSIBLE | BCH_FSCK_UNKNOWN_VERSION | RET_ENOMEM | RET_EIO | RET_OTHER

type_synonym uuid_le = "128 word"
type_synonym size_t = "64 word"

text \<open>struct bch_opts: every option is a signed byte (sizes: a signed 16-bit value); a
  negative value marks an option that was not given.\<close>

record bch_opts =
  block_size :: "16 word"
  btree_node_size :: "16 word"
  metadata_replicas :: "8 word"
  data_replicas :: "8 word"
  metadata_replicas_required :: "8 word"
  data_replicas_required :: "8 word"
  degraded :: "8 word"
  nochanges :: "8 word"
  noreplay :: "8 word"
  norecovery :: "8 word"
  nofsck :: "8 word"
  read_only :: "8 word"
  nostart :: "8 word"

text \<open>struct bch_member (one slot of the superblock's member table) and the superblock.\<close>

record bch_member =
  m_uuid :: uuid_le
  m_nbuckets :: "64 word"
  m_bucket_size :: "16 word"
  m_state :: bch_member_state
  m_last_mount :: "64 word"

record bch_sb =
  sb_uuid :: uuid_le
  sb_seq :: "64 word"
  sb_block_size :: "16 word"
  sb_dev_idx :: nat
  sb_nr_devices :: nat
  sb_members :: "bch_member list option"
  sb_opts :: bch_opts
  sb_initialized :: bool
  sb_clean :: bool

text \<open>struct bch_member_cpu (\<open>ca->mi\<close>) and struct bch_dev. \<open>disk_sb_bdev\<close> is
  \<open>ca->disk_sb.bdev != NULL\<close>, \<open>io_ref\<close> is whether \<open>ca->io_ref\<close> is live,
  \<open>alloc_thread\<close> and \<open>moving_gc_read\<close> are the two per-device worker threads and
  \<open>in_rw_devs\<close> is the device's bit in \<open>c->rw_devs\<close> (its reserve pools are part of
  the shared allocation pool).\<close>

record bch_member_cpu =
  nbuckets :: "64 word"
  bucket_size :: "16 word"
  mi_state :: bch_member_state

record bch_dev =
  dev_idx :: nat
  uuid :: uuid_le
  mi :: bch_member_cpu
  free_btree :: nat
  free_movinggc :: size_t
  free_none :: size_t
  free_inc :: size_t
  alloc_heap :: size_t
  copygc_heap :: size_t
  disk_sb_bdev :: bool
  io_ref :: bool
  alloc_thread :: bool
  moving_gc_read :: bool
  in_rw_devs :: bool
  journal_buckets :: bool

datatype event =
  Ev_tiering_stop | Ev_moving_gc_stop nat | Ev_gc_thread_stop
  | Ev_journal_flush_pins | Ev_btree_verify_flushed
  | Ev_dev_allocator_stop nat | Ev_fs_journal_stop | Ev_dev_allocator_remove nat
  | Ev_dev_allocator_add nat | Ev_recalc_capacity
  | Ev_dev_allocator_start nat | Ev_gc_thread_start | Ev_moving_gc_start nat
  | Ev_tiering_start | Ev_pd_controllers_update
  | Ev_write_super | Ev_journal_halt | Ev_queue_read_only_work
  | Ev_journal_start | Ev_journal_replay | Ev_fsck | Ev_initial_gc
  | Ev_journal_read | Ev_alloc_read | Ev_btree_root_read nat | Ev_btree_root_alloc nat
  | Ev_dev_journal_alloc nat | Ev_btree_insert_root_inode | Ev_journal_meta

record journal =
  j_error :: bool
  j_started :: bool
  j_replay_done :: bool

record bch_fs =
  fs_state :: bch_fs_state
  fs_flags :: "fs_flag set"
  opts :: bch_opts
  disk_sb :: bch_sb
  c_sb_uuid :: uuid_le
  c_sb_nr_devices :: nat
  devs :: "bch_dev option list"
  fs_journal :: journal
  gc_thread :: bool
  tiering_read :: bool
  writes_dead :: bool
  writes_in_flight :: nat
  pd_controllers_update :: bool
  read_only_work :: bool
  list_linked :: bool
  btree_roots :: "nat list"
  trace :: "event list"

text \<open>What super.c takes from outside the sources: the constants \<open>BTREE_NODE_RESERVE\<close>,
  \<open>BTREE_ID_NR\<close>, \<open>BTREE_ID_ALLOC\<close> and \<open>BCH_SB_MEMBERS_MAX\<close>, the default options,
  the time, and the outcome of every call into another file: a return code per call
  site, indexed by the device or the btree where the call has one.\<close>

record env =
  opts_default :: bch_opts
  BTREE_NODE_RESERVE :: nat
  BTREE_ID_NR :: nat
  BTREE_ID_ALLOC :: nat
  init_fault :: "string \<Rightarrow> bool"
  fs_alloc_nomem :: bool
  dev_kzalloc_fails :: "nat \<Rightarrow> bool"
  dev_alloc_nomem :: "nat \<Rightarrow> bool"
  dev_allocator_start_fails :: "nat \<Rightarrow> bool"
  gc_thread_start_fails :: bool
  moving_gc_start_fails :: "nat \<Rightarrow> bool"
  tiering_start_fails :: bool
  have_enough_devs :: "nat list \<Rightarrow> force_flag set \<Rightarrow> bool"
  BCH_SB_MEMBERS_MAX :: nat
  now :: "64 word"
  sb_to_fs_fails :: bool
  dev_journal_init_fails :: "nat \<Rightarrow> bool"
  sb_validate_err :: "bch_sb \<Rightarrow> string option"
  chardev_init_fails :: bool
  sysfs_fails :: bool
  dev_sysfs_online_fails :: bool
  journal_read_ret :: retcode
  find_btree_root :: "nat \<Rightarrow> bool"
  btree_root_read_fails :: "nat \<Rightarrow> bool"
  alloc_read_ret :: retcode
  initial_gc_ret :: retcode
  btree_root_alloc_fails :: "nat \<Rightarrow> bool"
  journal_replay_ret :: retcode
  fsck_ret :: retcode
  dev_journal_alloc_fails :: "nat \<Rightarrow> bool"
  btree_insert_fails :: bool
  journal_meta_fails :: bool

subsection \<open>Device table\<close>

text \<open>\<open>c->devs[i]\<close>: NULL outside the table.\<close>

definition slot :: "bch_dev option list \<Rightarrow> nat \<Rightarrow> bch_dev option" where
  "slot ds i = (if i < length ds then ds ! i else None)"

definition dev_slot :: "bch_fs \<Rightarrow> nat \<Rightarrow> bch_dev option" where
  "dev_slot c i = slot (devs c) i"

definition set_dev :: "nat \<Rightarrow> bch_dev \<Rightarrow> bch_fs \<Rightarrow> bch_fs" where
  "set_dev i ca c = c\<lparr>devs := (devs c)[i := Some ca]\<rparr>"

text \<open>\<open>bch2_dev_exists\<close>: the slot is inside the member table and its UUID is not zero.\<close>

definition bch2_dev_exists :: "bch_sb \<Rightarrow> nat \<Rightarrow> bool" where
  "bch2_dev_exists sb i =
     (case sb_members sb of
        None \<Rightarrow> False
      | Some ms \<Rightarrow> i < sb_nr_devices sb \<and> i < length ms \<and> m_uuid (ms ! i) \<noteq> 0)"

definition bch2_mi_to_cpu :: "bch_member \<Rightarrow> bch_member_cpu" where
  "bch2_mi_to_cpu m =
     \<lparr>nbuckets = m_nbuckets m, bucket_size = m_bucket_size m, mi_state = m_state m\<rparr>"

subsection \<open>bch2_dev_alloc\<close>

text \<open>The reserve sizes of lines 1122 to 1135. \<open>size_t\<close> is 64 bits wide;
  \<open>max_t(size_t, a, b)\<close> is the unsigned maximum and \<open>>>\<close> the logical shift.\<close>

definition movinggc_reserve :: "bch_member_cpu \<Rightarrow> size_t" where
  "movinggc_reserve m = max 16 (drop_bit 7 (nbuckets m))"

definition reserve_none :: "bch_member_cpu \<Rightarrow> size_t" where
  "reserve_none m = max 4 (drop_bit 9 (nbuckets m))"

definition free_inc_reserve :: "bch_member_cpu \<Rightarrow> size_t" where
  "free_inc_reserve m = movinggc_reserve m div 2"

definition heap_size :: "bch_member_cpu \<Rightarrow> size_t" where
  "heap_size m = movinggc_reserve m * 8"

definition DIV_ROUND_UP :: "nat \<Rightarrow> nat \<Rightarrow> nat" where
  "DIV_ROUND_UP n d = (n + d - 1) div d"

text \<open>\<open>bch2_dev_alloc(c, dev_idx)\<close>. The outer \<open>None\<close> is a trap: a read outside the
  member table, the division by zero in \<open>btree_node_reserve_buckets\<close> when the bucket
  is smaller than a btree node, or a write outside \<open>c->devs\<close>. \<open>Some (Some ENOMEM, c)\<close>
  is the error return, which frees the record and leaves \<open>c\<close> as it was:
  \<open>dev_kzalloc_fails\<close> is the failure of \<open>kzalloc\<close>, before the sizes are computed,
  and \<open>dev_alloc_nomem\<close> the failure of one of the allocations of lines 1137 to 1161,
  after it. The kobject, the completions and the sysfs entry are outside this model.\<close>

definition bch2_dev_alloc :: "env \<Rightarrow> bch_fs \<Rightarrow> nat \<Rightarrow> (errno option \<times> bch_fs) option" where
  "bch2_dev_alloc e c idx =
     (if init_fault e ''dev_alloc'' \<or> dev_kzalloc_fails e idx then Some (Some ENOMEM, c)
      else
        case sb_members (disk_sb c) of
          None \<Rightarrow> None
        | Some ms \<Rightarrow>
            if \<not> idx < length ms then None
            else
              let member = ms ! idx;
                  m = bch2_mi_to_cpu member;
                  per_bucket = unat (bucket_size m) div unat (btree_node_size (opts c))
              in if btree_node_size (opts c) = 0 \<or> per_bucket = 0 then None
                 else if dev_alloc_nomem e idx then Some (Some ENOMEM, c)
                 else if \<not> idx < length (devs c) then None
                 else
                   let ca = \<lparr>dev_idx = idx, uuid = m_uuid member, mi = m,
                             free_btree = DIV_ROUND_UP (BTREE_NODE_RESERVE e) per_bucket,
                             free_movinggc = movinggc_reserve m,
                             free_none = reserve_none m,
                             free_inc = free_inc_reserve m,
                             alloc_heap = free_inc_reserve m,
                             copygc_heap = heap_size m,
                             disk_sb_bdev = False, io_ref = False,
                             alloc_thread = False, moving_gc_read = False,
                             in_rw_devs = False, journal_buckets = False\<rparr>
                   in Some (None, set_dev idx ca c))"

subsection \<open>Iterating over the member devices\<close>

text \<open>\<open>for_each_member_device\<close> visits every slot below \<open>c->sb.nr_devices\<close> that holds a
  device; \<open>for_each_rw_member\<close> visits those whose membership state is RW and whose
  \<open>io_ref\<close> can be taken (the device is online).\<close>

definition mdevs :: "nat \<Rightarrow> bch_dev option list \<Rightarrow> nat list" where
  "mdevs n ds = filter (\<lambda>i. slot ds i \<noteq> None) [0..<n]"

definition member_devices :: "bch_fs \<Rightarrow> nat list" where
  "member_devices c = mdevs (c_sb_nr_devices c) (devs c)"

definition is_rw_member :: "bch_dev option \<Rightarrow> bool" where
  "is_rw_member d =
     (case d of None \<Rightarrow> False
      | Some ca \<Rightarrow> mi_state (mi ca) = BCH_MEMBER_STATE_RW \<and> io_ref ca)"

definition rwdevs :: "nat \<Rightarrow> bch_dev option list \<Rightarrow> nat list" where
  "rwdevs n ds = filter (\<lambda>i. is_rw_member (slot ds i)) [0..<n]"

definition rw_members :: "bch_fs \<Rightarrow> nat list" where
  "rw_members c = rwdevs (c_sb_nr_devices c) (devs c)"

definition log_event :: "event \<Rightarrow> bch_fs \<Rightarrow> bch_fs" where
  "log_event ev c = c\<lparr>trace := trace c @ [ev]\<rparr>"

definition upd_dev :: "nat \<Rightarrow> (bch_dev \<Rightarrow> bch_dev) \<Rightarrow> bch_fs \<Rightarrow> bch_fs" where
  "upd_dev i f c = (case dev_slot c i of None \<Rightarrow> c | Some ca \<Rightarrow> set_dev i (f ca) c)"

text \<open>A call \<open>g(ca)\<close> into another file on the device in slot \<open>i\<close>: the event, and the
  change \<open>f\<close> to the device.\<close>

definition dev_call :: "(nat \<Rightarrow> event) \<Rightarrow> (bch_dev \<Rightarrow> bch_dev) \<Rightarrow> nat \<Rightarrow> bch_fs \<Rightarrow> bch_fs" where
  "dev_call ev f i c = log_event (ev i) (upd_dev i f c)"

text \<open>A loop over devices that leaves at the first call that fails (\<open>goto err\<close>); the
  flag is whether a call failed.\<close>

fun start_each :: "(nat \<Rightarrow> bch_fs \<Rightarrow> bool \<times> bch_fs) \<Rightarrow> nat list \<Rightarrow> bch_fs \<Rightarrow> bool \<times> bch_fs" where
  "start_each f [] c = (False, c)"
| "start_each f (i # is) c =
     (case f i c of (True, c') \<Rightarrow> (True, c') | (False, c') \<Rightarrow> start_each f is c')"

subsection \<open>The collaborators of the RW/RO transitions\<close>

text \<open>Modelled from the spec: the allocator, data mover, mark-and-sweep, tiering and
  journal files are not part of the sources. Section 6 gives their contracts:
  \<open>start(device) -> error?\<close>, \<open>stop(device)\<close>, \<open>add_to_pool\<close>, \<open>remove_from_pool\<close>,
  \<open>start_background\<close>, \<open>stop_background\<close>, \<open>flush_all\<close>, \<open>halt\<close>. A start that
  fails starts nothing; a stop leaves the worker stopped.\<close>

definition bch2_tiering_stop :: "bch_fs \<Rightarrow> bch_fs" where
  "bch2_tiering_stop c = log_event Ev_tiering_stop (c\<lparr>tiering_read := False\<rparr>)"

definition bch2_moving_gc_stop :: "nat \<Rightarrow> bch_fs \<Rightarrow> bch_fs" where
  "bch2_moving_gc_stop = dev_call Ev_moving_gc_stop (\<lambda>ca. ca\<lparr>moving_gc_read := False\<rparr>)"

definition bch2_gc_thread_stop :: "bch_fs \<Rightarrow> bch_fs" where
  "bch2_gc_thread_stop c = log_event Ev_gc_thread_stop (c\<lparr>gc_thread := False\<rparr>)"

definition bch2_journal_flush_pins :: "bch_fs \<Rightarrow> bch_fs" where
  "bch2_journal_flush_pins c = log_event Ev_journal_flush_pins c"

definition bch2_journal_error :: "bch_fs \<Rightarrow> bool" where
  "bch2_journal_error c = j_error (fs_journal c)"

definition bch2_btree_verify_flushed :: "bch_fs \<Rightarrow> bch_fs" where
  "bch2_btree_verify_flushed c = log_event Ev_btree_verify_flushed c"

definition bch2_dev_allocator_stop :: "nat \<Rightarrow> bch_fs \<Rightarrow> bch_fs" where
  "bch2_dev_allocator_stop = dev_call Ev_dev_allocator_stop (\<lambda>ca. ca\<lparr>alloc_thread := False\<rparr>)"

definition bch2_fs_journal_stop :: "bch_fs \<Rightarrow> bch_fs" where
  "bch2_fs_journal_stop c =
     log_event Ev_fs_journal_stop (c\<lparr>fs_journal := (fs_journal c)\<lparr>j_started := False\<rparr>\<rparr>)"

definition bch2_dev_allocator_remove :: "nat \<Rightarrow> bch_fs \<Rightarrow> bch_fs" where
  "bch2_dev_allocator_remove = dev_call Ev_dev_allocator_remove (\<lambda>ca. ca\<lparr>in_rw_devs := False\<rparr>)"

definition bch2_dev_allocator_add :: "nat \<Rightarrow> bch_fs \<Rightarrow> bch_fs" where
  "bch2_dev_allocator_add = dev_call Ev_dev_allocator_add (\<lambda>ca. ca\<lparr>in_rw_devs := True\<rparr>)"

definition bch2_recalc_capacity :: "bch_fs \<Rightarrow> bch_fs" where
  "bch2_recalc_capacity c = log_event Ev_recalc_capacity c"

definition bch2_dev_allocator_start :: "env \<Rightarrow> nat \<Rightarrow> bch_fs \<Rightarrow> bool \<times> bch_fs" where
  "bch2_dev_allocator_start e i c =
     (if dev_allocator_start_fails e i then (True, c)
      else (False, dev_call Ev_dev_allocator_start (\<lambda>ca. ca\<lparr>alloc_thread := True\<rparr>) i c))"

definition bch2_gc_thread_start :: "env \<Rightarrow> bch_fs \<Rightarrow> bool \<times> bch_fs" where
  "bch2_gc_thread_start e c =
     (if gc_thread_start_fails e then (True, c)
      else (False, log_event Ev_gc_thread_start (c\<lparr>gc_thread := True\<rparr>)))"

definition bch2_moving_gc_start :: "env \<Rightarrow> nat \<Rightarrow> bch_fs \<Rightarrow> bool \<times> bch_fs" where
  "bch2_moving_gc_start e i c =
     (if moving_gc_start_fails e i then (True, c)
      else (False, dev_call Ev_moving_gc_start (\<lambda>ca. ca\<lparr>moving_gc_read := True\<rparr>) i c))"

definition bch2_tiering_start :: "env \<Rightarrow> bch_fs \<Rightarrow> bool \<times> bch_fs" where
  "bch2_tiering_start e c =
     (if tiering_start_fails e then (True, c)
      else (False, log_event Ev_tiering_start (c\<lparr>tiering_read := True\<rparr>)))"

definition bch2_journal_halt :: "bch_fs \<Rightarrow> bch_fs" where
  "bch2_journal_halt c =
     log_event Ev_journal_halt (c\<lparr>fs_journal := (fs_journal c)\<lparr>j_error := True\<rparr>\<rparr>)"

definition bch2_write_super :: "bch_fs \<Rightarrow> bch_fs" where
  "bch2_write_super c = log_event Ev_write_super c"

text \<open>Modelled from the spec: the write-admission gate \<open>c->writes\<close> is a percpu_ref of
  the kernel. Closing it (\<open>percpu_ref_kill\<close>) refuses new writes; "already-admitted
  in-flight writes are allowed to finish", and when the last one has,
  \<open>bch2_writes_disabled\<close> runs. \<open>wait_event\<close> on a condition that already holds returns
  at once; otherwise the caller sleeps until the writes have drained.\<close>

definition percpu_ref_kill_writes :: "bch_fs \<Rightarrow> bch_fs" where
  "percpu_ref_kill_writes c = c\<lparr>writes_dead := True\<rparr>"

definition percpu_ref_reinit_writes :: "bch_fs \<Rightarrow> bch_fs" where
  "percpu_ref_reinit_writes c = c\<lparr>writes_dead := False\<rparr>"

definition bch2_writes_disabled :: "bch_fs \<Rightarrow> bch_fs" where
  "bch2_writes_disabled c = c\<lparr>fs_flags := insert BCH_FS_WRITE_DISABLE_COMPLETE (fs_flags c)\<rparr>"

definition wait_event_read_only :: "(bch_fs \<Rightarrow> bool) \<Rightarrow> bch_fs \<Rightarrow> bch_fs" where
  "wait_event_read_only cond c =
     (if cond c then c else bch2_writes_disabled (c\<lparr>writes_in_flight := 0\<rparr>))"

text \<open>Modelled from the spec: emergency read-only "asynchronously schedules the RW->RO
  teardown; does not block the caller". \<open>c->read_only_work\<close> is one work item:
  queueing it while it is pending does not queue it twice.\<close>

definition queue_read_only_work :: "bch_fs \<Rightarrow> bch_fs" where
  "queue_read_only_work c =
     (if read_only_work c then c
      else log_event Ev_queue_read_only_work (c\<lparr>read_only_work := True\<rparr>))"

subsection \<open>Filesystem RO/RW\<close>

text \<open>\<open>__bch2_fs_read_only\<close> (the source's leading underscores are written \<open>uu_\<close>).\<close>

definition uu_bch2_fs_read_only :: "bch_fs \<Rightarrow> bch_fs" where
  "uu_bch2_fs_read_only c =
     (let c1 = bch2_tiering_stop c;
          c2 = fold bch2_moving_gc_stop (member_devices c1) c1;
          c3 = bch2_gc_thread_stop c2;
          c4 = bch2_journal_flush_pins c3;
          c5 = (if \<not> bch2_journal_error c4 then bch2_btree_verify_flushed c4 else c4);
          c6 = fold bch2_dev_allocator_stop (member_devices c5) c5;
          c7 = bch2_fs_journal_stop c6
      in fold bch2_dev_allocator_remove (member_devices c7) c7)"

definition SET_BCH_SB_CLEAN :: "bool \<Rightarrow> bch_fs \<Rightarrow> bch_fs" where
  "SET_BCH_SB_CLEAN v c = c\<lparr>disk_sb := (disk_sb c)\<lparr>sb_clean := v\<rparr>\<rparr>"

text \<open>\<open>bch2_fs_read_only\<close>. Of lines 259 to 265 the model keeps the closing of the
  write gate and the cancelling of the rate-controller update; the wake-up timer and the
  write rate are outside it.\<close>

definition bch2_fs_read_only :: "bch_fs \<Rightarrow> bch_fs" where
  "bch2_fs_read_only c =
     (if fs_state c \<noteq> BCH_FS_STARTING \<and> fs_state c \<noteq> BCH_FS_RW then c
      else if BCH_FS_ERROR \<in> fs_flags c then c
      else
        let c1 = percpu_ref_kill_writes c;
            c2 = c1\<lparr>pd_controllers_update := False\<rparr>;
            c3 = wait_event_read_only
                   (\<lambda>c. BCH_FS_WRITE_DISABLE_COMPLETE \<in> fs_flags c
                        \<or> BCH_FS_EMERGENCY_RO \<in> fs_flags c) c2;
            c4 = uu_bch2_fs_read_only c3;
            c5 = wait_event_read_only (\<lambda>c. BCH_FS_WRITE_DISABLE_COMPLETE \<in> fs_flags c) c4;
            c6 = c5\<lparr>fs_flags := fs_flags c5 - {BCH_FS_WRITE_DISABLE_COMPLETE}\<rparr>;
            c7 = (if \<not> bch2_journal_error c6 \<and> BCH_FS_ERROR \<notin> fs_flags c6
                  then bch2_write_super (SET_BCH_SB_CLEAN True c6) else c6)
        in c7\<lparr>fs_state := BCH_FS_RO\<rparr>)"

definition bch2_fs_read_only_work :: "bch_fs \<Rightarrow> bch_fs" where
  "bch2_fs_read_only_work c = bch2_fs_read_only c"

definition bch2_fs_read_only_async :: "bch_fs \<Rightarrow> bch_fs" where
  "bch2_fs_read_only_async c = queue_read_only_work c"

text \<open>The workqueue thread: it runs the work item if it is pending.\<close>

definition run_read_only_work :: "bch_fs \<Rightarrow> bch_fs" where
  "run_read_only_work c =
     (if read_only_work c then bch2_fs_read_only_work (c\<lparr>read_only_work := False\<rparr>) else c)"

text \<open>\<open>bch2_fs_emergency_read_only\<close>: \<open>test_and_set_bit\<close> returns the old value of
  the bit. The final \<open>wake_up\<close> changes no state of the model.\<close>

definition bch2_fs_emergency_read_only :: "bch_fs \<Rightarrow> bool \<times> bch_fs" where
  "bch2_fs_emergency_read_only c =
     (let ret = (BCH_FS_EMERGENCY_RO \<notin> fs_flags c);
          c1 = c\<lparr>fs_flags := insert BCH_FS_EMERGENCY_RO (fs_flags c)\<rparr>;
          c2 = bch2_fs_read_only_async c1;
          c3 = bch2_journal_halt c2
      in (ret, c3))"

text \<open>\<open>bch2_fs_read_write\<close>. The reference on \<open>ca->io_ref\<close> that a loop drops
  when it leaves early is not counted in this model.\<close>

definition bch2_fs_read_write :: "env \<Rightarrow> bch_fs \<Rightarrow> string option \<times> bch_fs" where
  "bch2_fs_read_write e c =
     (if fs_state c \<noteq> BCH_FS_STARTING \<and> fs_state c \<noteq> BCH_FS_RO then (None, c)
      else
        let c1 = fold bch2_dev_allocator_add (rw_members c) c;
            c2 = bch2_recalc_capacity c1
        in case start_each (bch2_dev_allocator_start e) (rw_members c2) c2 of
             (True, c3) \<Rightarrow> (Some ''error starting allocator thread'', uu_bch2_fs_read_only c3)
           | (False, c3) \<Rightarrow>
         (case bch2_gc_thread_start e c3 of
             (True, c4) \<Rightarrow> (Some ''error starting btree GC thread'', uu_bch2_fs_read_only c4)
           | (False, c4) \<Rightarrow>
         (case start_each (bch2_moving_gc_start e) (rw_members c4) c4 of
             (True, c5) \<Rightarrow> (Some ''error starting moving GC thread'', uu_bch2_fs_read_only c5)
           | (False, c5) \<Rightarrow>
         (case bch2_tiering_start e c5 of
             (True, c6) \<Rightarrow> (Some ''error starting tiering thread'', uu_bch2_fs_read_only c6)
           | (False, c6) \<Rightarrow>
               let c7 = log_event Ev_pd_controllers_update (c6\<lparr>pd_controllers_update := True\<rparr>);
                   c8 = (if fs_state c7 \<noteq> BCH_FS_STARTING then percpu_ref_reinit_writes c7
                         else c7)
               in (None, c8\<lparr>fs_state := BCH_FS_RW\<rparr>)))))"

subsection \<open>Device management\<close>

text \<open>\<open>bch2_online_devs\<close>: the slots whose device is online.\<close>

definition bch2_online_devs :: "bch_fs \<Rightarrow> nat list" where
  "bch2_online_devs c =
     filter (\<lambda>i. case dev_slot c i of None \<Rightarrow> False | Some ca \<Rightarrow> io_ref ca)
       [0..<c_sb_nr_devices c]"

text \<open>The number of member devices whose membership state is RW (the loop that adds
  \<open>ca2->mi.state == BCH_MEMBER_STATE_RW\<close> to \<open>nr_rw\<close>), and \<open>required\<close>. The option
  bytes are promoted to \<open>int\<close>.\<close>

definition nr_rw :: "bch_fs \<Rightarrow> int" where
  "nr_rw c =
     int (length (filter
       (\<lambda>i. case dev_slot c i of None \<Rightarrow> False
             | Some ca2 \<Rightarrow> mi_state (mi ca2) = BCH_MEMBER_STATE_RW)
       (member_devices c)))"

definition required :: "bch_fs \<Rightarrow> force_flag set \<Rightarrow> int" where
  "required c flags =
     max (if BCH_FORCE_IF_METADATA_DEGRADED \<notin> flags
          then sint (metadata_replicas (opts c))
          else sint (metadata_replicas_required (opts c)))
         (if BCH_FORCE_IF_DATA_DEGRADED \<notin> flags
          then sint (data_replicas (opts c))
          else sint (data_replicas_required (opts c)))"

text \<open>\<open>bch2_dev_state_allowed\<close>. The replica status of the FAILED and SPARE cases is
  computed outside super.c: \<open>have_enough_devs e\<close> stands for
  \<open>bch2_have_enough_devs(c, __bch2_replicas_status(c, devs), flags)\<close>. The \<open>default\<close>
  case of the switch is out of reach for the four membership states.\<close>

definition bch2_dev_state_allowed ::
  "env \<Rightarrow> bch_fs \<Rightarrow> bch_dev \<Rightarrow> bch_member_state \<Rightarrow> force_flag set \<Rightarrow> bool" where
  "bch2_dev_state_allowed e c ca new_state flags =
     (case new_state of
        BCH_MEMBER_STATE_RW \<Rightarrow> True
      | BCH_MEMBER_STATE_RO \<Rightarrow>
          if mi_state (mi ca) \<noteq> BCH_MEMBER_STATE_RW then True
          else nr_rw c - 1 \<le> required c flags
      | _ \<Rightarrow>
          if mi_state (mi ca) \<noteq> BCH_MEMBER_STATE_RW \<and> mi_state (mi ca) \<noteq> BCH_MEMBER_STATE_RO
          then True
          else have_enough_devs e (filter (\<lambda>i. i \<noteq> dev_idx ca) (bch2_online_devs c)) flags)"

subsection \<open>Options and the superblock copy\<close>

text \<open>Modelled from the spec: opts.c and super-io.c are not part of the sources. Options
  are merged "on-disk defaults < superblock-embedded options < caller-supplied overrides,
  later wins": \<open>bch2_opts_apply\<close> overwrites an option of \<open>dst\<close> with the one of
  \<open>src\<close> where \<open>src\<close> gives it. \<open>bch2_sb_to_fs\<close> copies a superblock into
  \<open>c->disk_sb\<close> and refreshes what \<open>c\<close> caches of it: \<open>c->sb\<close> and the member info
  \<open>ca->mi\<close> of every device.\<close>

definition opt_apply :: "'a::len word \<Rightarrow> 'a word \<Rightarrow> 'a word" where
  "opt_apply d s = (if 0 \<le> sint s then s else d)"

definition bch2_opts_apply :: "bch_opts \<Rightarrow> bch_opts \<Rightarrow> bch_opts" where
  "bch2_opts_apply dst src =
     \<lparr>block_size = opt_apply (block_size dst) (block_size src),
      btree_node_size = opt_apply (btree_node_size dst) (btree_node_size src),
      metadata_replicas = opt_apply (metadata_replicas dst) (metadata_replicas src),
      data_replicas = opt_apply (data_replicas dst) (data_replicas src),
      metadata_replicas_required =
        opt_apply (metadata_replicas_required dst) (metadata_replicas_required src),
      data_replicas_required =
        opt_apply (data_replicas_required dst) (data_replicas_required src),
      degraded = opt_apply (degraded dst) (degraded src),
      nochanges = opt_apply (nochanges dst) (nochanges src),
      noreplay = opt_apply (noreplay dst) (noreplay src),
      norecovery = opt_apply (norecovery dst) (norecovery src),
      nofsck = opt_apply (nofsck dst) (nofsck src),
      read_only = opt_apply (read_only dst) (read_only src),
      nostart = opt_apply (nostart dst) (nostart src)\<rparr>"

definition bch2_opts_from_sb :: "bch_sb \<Rightarrow> bch_opts" where
  "bch2_opts_from_sb sb = sb_opts sb"

definition refresh_mi :: "bch_member list \<Rightarrow> nat \<Rightarrow> bch_dev option \<Rightarrow> bch_dev option" where
  "refresh_mi ms i d =
     (case d of None \<Rightarrow> None
      | Some ca \<Rightarrow> if i < length ms then Some (ca\<lparr>mi := bch2_mi_to_cpu (ms ! i)\<rparr>) else Some ca)"

definition bch2_sb_update :: "bch_fs \<Rightarrow> bch_fs" where
  "bch2_sb_update c =
     c\<lparr>c_sb_uuid := sb_uuid (disk_sb c),
       c_sb_nr_devices := sb_nr_devices (disk_sb c),
       devs := (case sb_members (disk_sb c) of
                  None \<Rightarrow> devs c
                | Some ms \<Rightarrow> map (\<lambda>(i, d). refresh_mi ms i d) (enumerate 0 (devs c)))\<rparr>"

definition bch2_sb_to_fs :: "env \<Rightarrow> bch_sb \<Rightarrow> bch_fs \<Rightarrow> bool \<times> bch_fs" where
  "bch2_sb_to_fs e src c =
     (if sb_to_fs_fails e then (True, c) else (False, bch2_sb_update (c\<lparr>disk_sb := src\<rparr>)))"

subsection \<open>bch2_fs_alloc\<close>

text \<open>The loop of lines 611 to 614 over the slots \<open>is\<close>.\<close>

fun fs_alloc_devs :: "env \<Rightarrow> nat list \<Rightarrow> bch_fs \<Rightarrow> (bool \<times> bch_fs) option" where
  "fs_alloc_devs e [] c = Some (False, c)"
| "fs_alloc_devs e (i # is) c =
     (if bch2_dev_exists (disk_sb c) i then
        (case bch2_dev_alloc e c i of
           None \<Rightarrow> None
         | Some (Some err, c') \<Rightarrow> Some (True, c')
         | Some (None, c') \<Rightarrow> fs_alloc_devs e is c')
      else fs_alloc_devs e is c)"

text \<open>The instance after \<open>kzalloc\<close> and the initialisations of lines 489 to 545, before
  the superblock is copied in. \<open>BCH_FS_STARTING\<close> is the state 0.\<close>

definition fs_zeroed :: "env \<Rightarrow> bch_sb \<Rightarrow> bch_fs" where
  "fs_zeroed e sb =
     \<lparr>fs_state = BCH_FS_STARTING, fs_flags = {}, opts = opts_default e, disk_sb = sb,
      c_sb_uuid = 0, c_sb_nr_devices = 0, devs = replicate (BCH_SB_MEMBERS_MAX e) None,
      fs_journal = \<lparr>j_error = False, j_started = False, j_replay_done = False\<rparr>,
      gc_thread = False, tiering_read = False, writes_dead = False, writes_in_flight = 0,
      pd_controllers_update = False, read_only_work = False, list_linked = False,
      btree_roots = [], trace = []\<rparr>"

text \<open>Lines 558 to 565.\<close>

definition merge_opts :: "env \<Rightarrow> bch_sb \<Rightarrow> bch_opts \<Rightarrow> bch_opts" where
  "merge_opts e sb o1 =
     (let o2 = bch2_opts_apply (bch2_opts_apply (opts_default e) (bch2_opts_from_sb sb)) o1;
          o3 = o2\<lparr>nochanges := nochanges o2 OR noreplay o2\<rparr>
      in o3\<lparr>read_only := read_only o3 OR nochanges o3\<rparr>)"

text \<open>\<open>bch2_fs_alloc(sb, opts)\<close>: \<open>Some None\<close> is the NULL return, the outer \<open>None\<close> a
  trap in \<open>bch2_dev_alloc\<close>. \<open>fs_alloc_nomem\<close> is the failure of \<open>kzalloc\<close> or of
  one of the allocations of lines 573 to 603: each of them ends in the NULL return, and
  all of them come before the devices are allocated.\<close>

definition bch2_fs_alloc :: "env \<Rightarrow> bch_sb \<Rightarrow> bch_opts \<Rightarrow> bch_fs option option" where
  "bch2_fs_alloc e sb o1 =
     (if fs_alloc_nomem e then Some None
      else
        case bch2_sb_to_fs e sb (fs_zeroed e sb) of
          (True, c) \<Rightarrow> Some None
        | (False, c) \<Rightarrow>
            let c1 = c\<lparr>opts := merge_opts e sb o1\<rparr>
            in if init_fault e ''fs_alloc'' then Some None
               else
                 (case fs_alloc_devs e [0..<c_sb_nr_devices c1] c1 of
                    None \<Rightarrow> None
                  | Some (True, c2) \<Rightarrow> Some None
                  | Some (False, c2) \<Rightarrow> Some (Some c2)))"

subsection \<open>Bringing a device online\<close>


text \<open>\<open>__bch2_dev_online(c, sb)\<close>. The outer \<open>None\<close> is the \<open>BUG_ON\<close>. The return
  value of \<open>bch2_sb_to_fs\<close> is not looked at. The journal write delay and the marking of
  the device's superblock buckets are outside this model.\<close>

definition uu_bch2_dev_online ::
  "env \<Rightarrow> bch_fs \<Rightarrow> bch_sb \<Rightarrow> (errno option \<times> bch_fs) option" where
  "uu_bch2_dev_online e c sb =
     (let c1 = (if sb_seq sb > sb_seq (disk_sb c) then snd (bch2_sb_to_fs e sb c) else c)
      in if sb_dev_idx sb \<ge> c_sb_nr_devices c1 then None
         else
           case dev_slot c1 (sb_dev_idx sb) of
             None \<Rightarrow> None
           | Some ca \<Rightarrow>
               if disk_sb_bdev ca then Some (Some EINVAL, c1)
               else if dev_journal_init_fails e (sb_dev_idx sb) then Some (Some ENOMEM, c1)
               else
                 let c2 = set_dev (sb_dev_idx sb) (ca\<lparr>disk_sb_bdev := True\<rparr>) c1;
                     c3 = (if mi_state (mi ca) = BCH_MEMBER_STATE_RW
                           then bch2_dev_allocator_add (sb_dev_idx sb) c2 else c2);
                     c4 = upd_dev (sb_dev_idx sb) (\<lambda>ca. ca\<lparr>io_ref := True\<rparr>) c3
                 in Some (None, c4))"



subsection \<open>Filesystem startup\<close>

text \<open>A step of \<open>__bch2_fs_start\<close> either goes on with the instance (\<open>Inr\<close>) or jumps
  to the label \<open>err\<close> with the message \<open>err\<close>, the value of \<open>ret\<close> and the instance
  at that point (\<open>Inl\<close>).\<close>

type_synonym start_step = "(string \<times> retcode \<times> bch_fs) + bch_fs"

definition and_then :: "start_step \<Rightarrow> (bch_fs \<Rightarrow> start_step) \<Rightarrow> start_step" where
  "and_then r f = (case r of Inl x \<Rightarrow> Inl x | Inr c \<Rightarrow> f c)"

text \<open>Modelled from the spec: the journal, the btree roots, the allocation information,
  the initial mark-and-sweep, journal replay, fsck and the creation of the root directory
  are calls into files outside the sources (section 6: \<open>read\<close>, \<open>replay\<close>,
  \<open>run_once\<close>, \<open>run\<close>, \<open>alloc_journal_buckets\<close>, \<open>start_live_writes\<close>,
  \<open>mark_replay_complete\<close>). Each appends its event; its return code comes from \<open>env\<close>.\<close>

definition bch2_journal_read :: "env \<Rightarrow> bch_fs \<Rightarrow> retcode \<times> bch_fs" where
  "bch2_journal_read e c = (journal_read_ret e, log_event Ev_journal_read c)"

definition bch2_btree_root_read :: "env \<Rightarrow> nat \<Rightarrow> bch_fs \<Rightarrow> bool \<times> bch_fs" where
  "bch2_btree_root_read e i c =
     (if btree_root_read_fails e i then (True, c)
      else (False, log_event (Ev_btree_root_read i) (c\<lparr>btree_roots := i # btree_roots c\<rparr>)))"

definition bch2_alloc_read :: "env \<Rightarrow> bch_fs \<Rightarrow> retcode \<times> bch_fs" where
  "bch2_alloc_read e c = (alloc_read_ret e, log_event Ev_alloc_read c)"

definition bch2_initial_gc :: "env \<Rightarrow> bch_fs \<Rightarrow> retcode \<times> bch_fs" where
  "bch2_initial_gc e c = (initial_gc_ret e, log_event Ev_initial_gc c)"

definition bch2_btree_root_alloc :: "env \<Rightarrow> nat \<Rightarrow> bch_fs \<Rightarrow> bool \<times> bch_fs" where
  "bch2_btree_root_alloc e i c =
     (if btree_root_alloc_fails e i then (True, c)
      else (False, log_event (Ev_btree_root_alloc i) (c\<lparr>btree_roots := i # btree_roots c\<rparr>)))"

definition bch2_journal_start :: "bch_fs \<Rightarrow> bch_fs" where
  "bch2_journal_start c =
     log_event Ev_journal_start (c\<lparr>fs_journal := (fs_journal c)\<lparr>j_started := True\<rparr>\<rparr>)"

definition bch2_journal_set_replay_done :: "bch_fs \<Rightarrow> bch_fs" where
  "bch2_journal_set_replay_done c = c\<lparr>fs_journal := (fs_journal c)\<lparr>j_replay_done := True\<rparr>\<rparr>"

definition bch2_journal_replay :: "env \<Rightarrow> bch_fs \<Rightarrow> retcode \<times> bch_fs" where
  "bch2_journal_replay e c =
     (journal_replay_ret e,
      log_event Ev_journal_replay (c\<lparr>fs_journal := (fs_journal c)\<lparr>j_replay_done := True\<rparr>\<rparr>))"

definition bch2_fsck :: "env \<Rightarrow> bch_fs \<Rightarrow> retcode \<times> bch_fs" where
  "bch2_fsck e c = (fsck_ret e, log_event Ev_fsck c)"

definition bch2_dev_journal_alloc :: "env \<Rightarrow> nat \<Rightarrow> bch_fs \<Rightarrow> bool \<times> bch_fs" where
  "bch2_dev_journal_alloc e i c =
     (if dev_journal_alloc_fails e i then (True, c)
      else (False, dev_call Ev_dev_journal_alloc (\<lambda>ca. ca\<lparr>journal_buckets := True\<rparr>) i c))"

definition bch2_btree_insert_root_inode :: "env \<Rightarrow> bch_fs \<Rightarrow> bool \<times> bch_fs" where
  "bch2_btree_insert_root_inode e c =
     (btree_insert_fails e, log_event Ev_btree_insert_root_inode c)"

definition bch2_journal_meta :: "env \<Rightarrow> bch_fs \<Rightarrow> bool \<times> bch_fs" where
  "bch2_journal_meta e c = (journal_meta_fails e, log_event Ev_journal_meta c)"

text \<open>The loop of lines 723 to 738 over the btree ids \<open>is\<close>; \<open>ret\<close> is 0 in it.\<close>

fun read_btree_roots :: "env \<Rightarrow> nat list \<Rightarrow> bch_fs \<Rightarrow> start_step" where
  "read_btree_roots e [] c = Inr c"
| "read_btree_roots e (i # is) c =
     (if \<not> find_btree_root e i \<and> i < BTREE_ID_ALLOC e
      then Inl (''missing btree root'', RET_OK, c)
      else if \<not> find_btree_root e i then read_btree_roots e is c
      else case bch2_btree_root_read e i c of
             (True, c') \<Rightarrow> Inl (''error reading btree root'', RET_OK, c')
           | (False, c') \<Rightarrow> read_btree_roots e is c')"

text \<open>The loops of lines 758 to 761 (\<open>only_missing\<close>) and 815 to 817.\<close>

fun alloc_btree_roots :: "env \<Rightarrow> bool \<Rightarrow> nat list \<Rightarrow> bch_fs \<Rightarrow> start_step" where
  "alloc_btree_roots e only_missing [] c = Inr c"
| "alloc_btree_roots e only_missing (i # is) c =
     (if only_missing \<and> i \<in> set (btree_roots c) then alloc_btree_roots e only_missing is c
      else case bch2_btree_root_alloc e i c of
             (True, c') \<Rightarrow> Inl (''cannot allocate new btree root'', RET_OK, c')
           | (False, c') \<Rightarrow> alloc_btree_roots e only_missing is c')"

definition check_ret :: "string \<Rightarrow> retcode \<times> bch_fs \<Rightarrow> start_step" where
  "check_ret err r = (case r of (ret, c) \<Rightarrow> if ret \<noteq> RET_OK then Inl (err, ret, c) else Inr c)"

definition check_fail :: "string \<Rightarrow> bool \<times> bch_fs \<Rightarrow> start_step" where
  "check_fail err r = (case r of (failed, c) \<Rightarrow> if failed then Inl (err, RET_OK, c) else Inr c)"

text \<open>The branch for an initialised superblock, lines 714 to 794. \<open>goto recovery_done\<close>
  is the \<open>Inr\<close> that skips the steps after it.\<close>

definition start_existing :: "env \<Rightarrow> bch_fs \<Rightarrow> start_step" where
  "start_existing e c =
     and_then (check_ret ''cannot allocate memory'' (bch2_journal_read e c)) (\<lambda>c.
     and_then (read_btree_roots e [0..<BTREE_ID_NR e] c) (\<lambda>c.
     and_then (check_ret ''error reading allocation information'' (bch2_alloc_read e c)) (\<lambda>c.
     and_then (check_ret ''error in recovery''
        (bch2_initial_gc e (c\<lparr>fs_flags := insert BCH_FS_ALLOC_READ_DONE (fs_flags c)\<rparr>))) (\<lambda>c.
     if noreplay (opts c) \<noteq> 0 then Inr c
     else
     and_then (alloc_btree_roots e True [0..<BTREE_ID_NR e] c) (\<lambda>c.
     and_then (check_fail ''error starting allocator thread''
        (start_each (bch2_dev_allocator_start e) (rw_members (bch2_journal_start c))
           (bch2_journal_start c))) (\<lambda>c.
     and_then (check_ret ''journal replay failed'' (bch2_journal_replay e c)) (\<lambda>c.
     if norecovery (opts c) \<noteq> 0 then Inr c
     else check_ret ''error in fsck'' (bch2_fsck e c))))))))"

text \<open>The branch for a new filesystem, lines 796 to 850.\<close>

definition start_fresh :: "env \<Rightarrow> bch_fs \<Rightarrow> start_step" where
  "start_fresh e c =
     and_then (check_ret ''cannot allocate memory''
        (bch2_initial_gc e (c\<lparr>fs_flags := insert BCH_FS_ALLOC_READ_DONE (fs_flags c)\<rparr>))) (\<lambda>c.
     and_then (check_fail ''unable to allocate journal buckets''
        (start_each (bch2_dev_journal_alloc e) (rw_members c) c)) (\<lambda>c.
     and_then (alloc_btree_roots e False [0..<BTREE_ID_NR e] c) (\<lambda>c.
     and_then (check_fail ''error starting allocator thread''
        (start_each (bch2_dev_allocator_start e)
           (rw_members (bch2_journal_set_replay_done (bch2_journal_start c)))
           (bch2_journal_set_replay_done (bch2_journal_start c)))) (\<lambda>c.
     and_then (check_fail ''error creating root directory''
        (bch2_btree_insert_root_inode e c)) (\<lambda>c.
     check_fail ''error writing first journal entry'' (bch2_journal_meta e c))))))"

text \<open>From \<open>recovery_done\<close> to the call of \<open>bch2_fs_read_only\<close> or
  \<open>bch2_fs_read_write\<close>, lines 852 to 863.\<close>

definition start_go_ro_or_rw :: "env \<Rightarrow> bch_fs \<Rightarrow> start_step" where
  "start_go_ro_or_rw e c =
     (if init_fault e ''fs_start'' then Inl (''dynamic fault'', RET_OK, c)
      else if read_only (opts c) \<noteq> 0 then Inr (bch2_fs_read_only c)
      else case bch2_fs_read_write e c of
             (Some err, c') \<Rightarrow> Inl (err, RET_OK, c')
           | (None, c') \<Rightarrow> Inr c')"

text \<open>Lines 865 to 876: the last-mount time of every member device, the INITIALIZED and
  CLEAN bits, and the superblock write.\<close>

definition stamp_last_mount :: "64 word \<Rightarrow> nat list \<Rightarrow> bch_member list \<Rightarrow> bch_member list" where
  "stamp_last_mount t is ms =
     map (\<lambda>(i, m). if i \<in> set is then m\<lparr>m_last_mount := t\<rparr> else m) (enumerate 0 ms)"

definition start_write_super :: "env \<Rightarrow> bch_fs \<Rightarrow> bch_fs" where
  "start_write_super e c =
     bch2_write_super
       (c\<lparr>disk_sb := (disk_sb c)
            \<lparr>sb_members := map_option (stamp_last_mount (now e) (member_devices c))
                             (sb_members (disk_sb c)),
             sb_initialized := True, sb_clean := False\<rparr>\<rparr>)"

text \<open>The switch at the label \<open>err\<close>, lines 886 to 910.\<close>

definition start_err_msg :: "string \<Rightarrow> retcode \<Rightarrow> string" where
  "start_err_msg err ret =
     (case ret of
        BCH_FSCK_ERRORS_NOT_FIXED \<Rightarrow> ''fsck error''
      | BCH_FSCK_REPAIR_UNIMPLEMENTED \<Rightarrow> ''fsck error''
      | BCH_FSCK_REPAIR_IMPOSSIBLE \<Rightarrow> ''fsck error''
      | BCH_FSCK_UNKNOWN_VERSION \<Rightarrow> ''unknown metadata version''
      | RET_ENOMEM \<Rightarrow> ''cannot allocate memory''
      | RET_EIO \<Rightarrow> ''IO error''
      | _ \<Rightarrow> err)"

text \<open>\<open>__bch2_fs_start\<close>. The outer \<open>None\<close> is \<open>BUG_ON(c->state != BCH_FS_STARTING)\<close>.
  Every jump to \<open>err\<close> carries a message, so \<open>BUG_ON(!err)\<close> is out of reach. The
  copies of the superblock on the devices (\<open>bch2_sb_from_fs\<close>) and the hands of the
  prio clocks are outside this model.\<close>

definition uu_bch2_fs_start :: "env \<Rightarrow> bch_fs \<Rightarrow> (string option \<times> bch_fs) option" where
  "uu_bch2_fs_start e c =
     (if fs_state c \<noteq> BCH_FS_STARTING then None
      else
        let c1 = bch2_recalc_capacity (fold bch2_dev_allocator_add (rw_members c) c)
        in case and_then
                  (if sb_initialized (disk_sb c1) then start_existing e c1 else start_fresh e c1)
                  (start_go_ro_or_rw e) of
             Inr c2 \<Rightarrow> Some (None, start_write_super e c2)
           | Inl (err, ret, c2) \<Rightarrow>
               Some (Some (start_err_msg err ret),
                     c2\<lparr>fs_flags := insert BCH_FS_ERROR (fs_flags c2)\<rparr>))"

subsection \<open>The list of open filesystems\<close>

text \<open>\<open>bch_fs_list\<close> holds the addresses of the published instances, the newest first;
  \<open>fs_heap\<close> maps an address to the instance allocated there; \<open>next_addr\<close> is the
  address of the next allocation.\<close>

record world =
  bch_fs_list :: "nat list"
  fs_heap :: "nat \<Rightarrow> bch_fs option"
  next_addr :: nat







subsection \<open>Auxiliary notions for the proofs\<close>

text \<open>The device table after a loop that applies \<open>f\<close> to the devices in the slots
  \<open>is\<close>, one after the other.\<close>

definition devs_apply ::
  "(bch_dev \<Rightarrow> bch_dev) \<Rightarrow> nat list \<Rightarrow> bch_dev option list \<Rightarrow> bch_dev option list" where
  "devs_apply f is ds = fold (\<lambda>i ds. ds[i := map_option f (ds ! i)]) is ds"

text \<open>No worker of the instance is running: neither the mark-and-sweep thread, nor the
  tiering thread, nor the allocator or moving-GC thread of any member device.\<close>

definition no_workers :: "bch_fs \<Rightarrow> bool" where
  "no_workers c =
     (\<not> gc_thread c \<and> \<not> tiering_read c \<and>
      list_all (\<lambda>i. case dev_slot c i of None \<Rightarrow> True
                    | Some ca \<Rightarrow> \<not> alloc_thread ca \<and> \<not> moving_gc_read ca)
        [0..<c_sb_nr_devices c])"

text \<open>Some start call of \<open>bch2_fs_read_write\<close> fails.\<close>

definition some_start_fails :: "env \<Rightarrow> bch_fs \<Rightarrow> bool" where
  "some_start_fails e c =
     (list_ex (dev_allocator_start_fails e) (rw_members c) \<or> gc_thread_start_fails e
      \<or> list_ex (moving_gc_start_fails e) (rw_members c) \<or> tiering_start_fails e)"

text \<open>The number of teardowns in a trace: \<open>__bch2_fs_read_only\<close> flushes the journal
  pins once, and no other function of super.c does.\<close>

definition teardowns :: "bch_fs \<Rightarrow> nat" where
  "teardowns c = count_list (trace c) Ev_journal_flush_pins"

text \<open>What the steps of startup leave alone: the UUIDs, the link into the list of open
  filesystems, the options, the state, and whether the ERROR flag is set.\<close>

definition kept :: "bch_fs \<Rightarrow> bch_fs \<Rightarrow> bool" where
  "kept c c' =
     (sb_uuid (disk_sb c') = sb_uuid (disk_sb c) \<and> c_sb_uuid c' = c_sb_uuid c
      \<and> list_linked c' = list_linked c \<and> opts c' = opts c \<and> fs_state c' = fs_state c
      \<and> (BCH_FS_ERROR \<in> fs_flags c') = (BCH_FS_ERROR \<in> fs_flags c))"

definition step_kept :: "bch_fs \<Rightarrow> start_step \<Rightarrow> bool" where
  "step_kept c r = (case r of Inl (err, ret, c') \<Rightarrow> kept c c' | Inr c' \<Rightarrow> kept c c')"

text \<open>The registry invariant: the instances of the list have pairwise different UUIDs,
  each of them is allocated, marked as linked, and caches its own UUID.\<close>

definition uuid_at :: "world \<Rightarrow> nat \<Rightarrow> uuid_le option" where
  "uuid_at w p = map_option (\<lambda>c. sb_uuid (disk_sb c)) (fs_heap w p)"

definition listed_ok :: "world \<Rightarrow> nat \<Rightarrow> bool" where
  "listed_ok w p =
     (p < next_addr w \<and>
      (case fs_heap w p of None \<Rightarrow> False
       | Some c \<Rightarrow> list_linked c \<and> c_sb_uuid c = sb_uuid (disk_sb c)))"


text \<open>The recovery part of \<open>__bch2_fs_start\<close>: everything before \<open>recovery_done\<close>.\<close>

definition start_recovery :: "env \<Rightarrow> bch_fs \<Rightarrow> start_step" where
  "start_recovery e c =
     (let c1 = bch2_recalc_capacity (fold bch2_dev_allocator_add (rw_members c) c)
      in if sb_initialized (disk_sb c1) then start_existing e c1 else start_fresh e c1)"

text \<open>The loop of \<open>bch2_fs_open\<close>, lines 1719 to 1723, that brings the devices of a new
  instance online.\<close>

fun online_each :: "env \<Rightarrow> bch_fs \<Rightarrow> bch_sb list \<Rightarrow> (errno option \<times> bch_fs) option" where
  "online_each e c [] = Some (None, c)"
| "online_each e c (sb # sbs) =
     (case uu_bch2_dev_online e c sb of
        None \<Rightarrow> None
      | Some (Some err, c') \<Rightarrow> Some (Some err, c')
      | Some (None, c') \<Rightarrow> online_each e c' sbs)"

text \<open>The instance of \<open>bch2_fs_alloc\<close> before its devices are allocated.\<close>

definition fs_alloc_init :: "env \<Rightarrow> bch_sb \<Rightarrow> bch_opts \<Rightarrow> bch_fs" where
  "fs_alloc_init e sb o1 = (bch2_sb_update (fs_zeroed e sb))\<lparr>opts := merge_opts e sb o1\<rparr>"

text \<open>The instance of \<open>__bch2_dev_online\<close> after the superblock of the device may have
  replaced the one of the filesystem.\<close>

definition dev_online_sb :: "env \<Rightarrow> bch_fs \<Rightarrow> bch_sb \<Rightarrow> bch_fs" where
  "dev_online_sb e c sb =
     (if sb_seq sb > sb_seq (disk_sb c) then snd (bch2_sb_to_fs e sb c) else c)"



text \<open>The events of one teardown over the member devices \<open>ms\<close>, and the device
  table after it.\<close>

definition teardown_events :: "bool \<Rightarrow> nat list \<Rightarrow> event list" where
  "teardown_events jerr ms =
     Ev_tiering_stop # map Ev_moving_gc_stop ms @ [Ev_gc_thread_stop, Ev_journal_flush_pins]
     @ (if jerr then [] else [Ev_btree_verify_flushed])
     @ map Ev_dev_allocator_stop ms @ [Ev_fs_journal_stop] @ map Ev_dev_allocator_remove ms"

definition teardown_devs :: "nat list \<Rightarrow> bch_dev option list \<Rightarrow> bch_dev option list" where
  "teardown_devs ms ds =
     devs_apply (\<lambda>ca. ca\<lparr>in_rw_devs := False\<rparr>) ms
       (devs_apply (\<lambda>ca. ca\<lparr>alloc_thread := False\<rparr>) ms
         (devs_apply (\<lambda>ca. ca\<lparr>moving_gc_read := False\<rparr>) ms ds))"

text \<open>The states of \<open>bch2_fs_read_write\<close> after each of its start steps.\<close>

definition rw_added :: "bch_fs \<Rightarrow> bch_fs" where
  "rw_added c = bch2_recalc_capacity (fold bch2_dev_allocator_add (rw_members c) c)"

definition rw_allocators :: "env \<Rightarrow> bch_fs \<Rightarrow> bch_fs" where
  "rw_allocators e c = snd (start_each (bch2_dev_allocator_start e) (rw_members c) (rw_added c))"

definition rw_gc :: "env \<Rightarrow> bch_fs \<Rightarrow> bch_fs" where
  "rw_gc e c = snd (bch2_gc_thread_start e (rw_allocators e c))"

definition rw_moving_gc :: "env \<Rightarrow> bch_fs \<Rightarrow> bch_fs" where
  "rw_moving_gc e c = snd (start_each (bch2_moving_gc_start e) (rw_members c) (rw_gc e c))"

definition rw_tiering :: "env \<Rightarrow> bch_fs \<Rightarrow> bch_fs" where
  "rw_tiering e c = snd (bch2_tiering_start e (rw_moving_gc e c))"

text \<open>\<open>bch2_fs_read_only\<close> gets past its two early returns.\<close>

definition may_tear_down :: "bch_fs \<Rightarrow> bool" where
  "may_tear_down c =
     ((fs_state c = BCH_FS_STARTING \<or> fs_state c = BCH_FS_RW) \<and> BCH_FS_ERROR \<notin> fs_flags c)"

subsection \<open>Concrete instances\<close>

text \<open>A two-device filesystem with two replicas of data and metadata, used to run the
  functions on concrete inputs.\<close>

definition opts2 :: bch_opts where
  "opts2 = \<lparr>block_size = 8, btree_node_size = 512, metadata_replicas = 2, data_replicas = 2,
            metadata_replicas_required = 1, data_replicas_required = 1, degraded = 0,
            nochanges = 0, noreplay = 0, norecovery = 0, nofsck = 0, read_only = 0,
            nostart = 0\<rparr>"

definition opts_empty :: bch_opts where
  "opts_empty = \<lparr>block_size = - 1, btree_node_size = - 1, metadata_replicas = - 1,
            data_replicas = - 1, metadata_replicas_required = - 1,
            data_replicas_required = - 1, degraded = - 1, nochanges = - 1, noreplay = - 1,
            norecovery = - 1, nofsck = - 1, read_only = - 1, nostart = - 1\<rparr>"

definition member_rw :: "nat \<Rightarrow> bch_member" where
  "member_rw i = \<lparr>m_uuid = of_nat (i + 1), m_nbuckets = 4096, m_bucket_size = 1024,
                  m_state = BCH_MEMBER_STATE_RW, m_last_mount = 0\<rparr>"

definition sb2 :: bch_sb where
  "sb2 = \<lparr>sb_uuid = 176, sb_seq = 1, sb_block_size = 8, sb_dev_idx = 0, sb_nr_devices = 2,
          sb_members = Some [member_rw 0, member_rw 1], sb_opts = opts_empty,
          sb_initialized = True, sb_clean = False\<rparr>"

definition dev_rw :: "nat \<Rightarrow> bool \<Rightarrow> bch_dev" where
  "dev_rw i running =
     \<lparr>dev_idx = i, uuid = of_nat (i + 1),
      mi = \<lparr>nbuckets = 4096, bucket_size = 1024, mi_state = BCH_MEMBER_STATE_RW\<rparr>,
      free_btree = 4, free_movinggc = 32, free_none = 8, free_inc = 16, alloc_heap = 16,
      copygc_heap = 256, disk_sb_bdev = True, io_ref = True, alloc_thread = running,
      moving_gc_read = running, in_rw_devs = running, journal_buckets = True\<rparr>"

definition fs_rw2 :: bch_fs where
  "fs_rw2 =
     \<lparr>fs_state = BCH_FS_RW, fs_flags = {}, opts = opts2, disk_sb = sb2, c_sb_uuid = 176,
      c_sb_nr_devices = 2, devs = [Some (dev_rw 0 True), Some (dev_rw 1 True)],
      fs_journal = \<lparr>j_error = False, j_started = True, j_replay_done = True\<rparr>,
      gc_thread = True, tiering_read = True, writes_dead = False, writes_in_flight = 0,
      pd_controllers_update = True, read_only_work = False, list_linked = True,
      btree_roots = [], trace = []\<rparr>"

definition fs_ro2 :: bch_fs where
  "fs_ro2 =
     \<lparr>fs_state = BCH_FS_RO, fs_flags = {}, opts = opts2, disk_sb = sb2\<lparr>sb_clean := True\<rparr>,
      c_sb_uuid = 176, c_sb_nr_devices = 2,
      devs = [Some (dev_rw 0 False), Some (dev_rw 1 False)],
      fs_journal = \<lparr>j_error = False, j_started = False, j_replay_done = True\<rparr>,
      gc_thread = False, tiering_read = False, writes_dead = True, writes_in_flight = 0,
      pd_controllers_update = False, read_only_work = False, list_linked = True,
      btree_roots = [], trace = []\<rparr>"

definition env_ok :: env where
  "env_ok =
     \<lparr>opts_default = opts2, BTREE_NODE_RESERVE = 8, BTREE_ID_NR = 5, BTREE_ID_ALLOC = 4,
      init_fault = (\<lambda>_. False), fs_alloc_nomem = False,
      dev_kzalloc_fails = (\<lambda>_. False), dev_alloc_nomem = (\<lambda>_. False),
      dev_allocator_start_fails = (\<lambda>_. False), gc_thread_start_fails = False,
      moving_gc_start_fails = (\<lambda>_. False), tiering_start_fails = False,
      have_enough_devs = (\<lambda>_ _. True), BCH_SB_MEMBERS_MAX = 4, now = 1000,
      sb_to_fs_fails = False, dev_journal_init_fails = (\<lambda>_. False),
      sb_validate_err = (\<lambda>_. None), chardev_init_fails = False, sysfs_fails = False,
      dev_sysfs_online_fails = False, journal_read_ret = RET_OK,
      find_btree_root = (\<lambda>_. True), btree_root_read_fails = (\<lambda>_. False),
      alloc_read_ret = RET_OK, initial_gc_ret = RET_OK,
      btree_root_alloc_fails = (\<lambda>_. False), journal_replay_ret = RET_OK,
      fsck_ret = RET_OK, dev_journal_alloc_fails = (\<lambda>_. False),
      btree_insert_fails = False, journal_meta_fails = False\<rparr>"

definition fs_ro_err :: bch_fs where
  "fs_ro_err = fs_ro2\<lparr>fs_flags := {BCH_FS_ERROR}\<rparr>"

definition fs_rw_jerr :: bch_fs where
  "fs_rw_jerr = fs_rw2\<lparr>fs_journal := \<lparr>j_error = True, j_started = True, j_replay_done = True\<rparr>\<rparr>"

definition fs_new2 :: bch_fs where
  "fs_new2 = fs_ro2\<lparr>fs_state := BCH_FS_STARTING, devs := [None, None], list_linked := False\<rparr>"

definition env_gc_fails :: env where
  "env_gc_fails = env_ok\<lparr>gc_thread_start_fails := True\<rparr>"

definition opts_noreplay :: bch_opts where
  "opts_noreplay = opts_empty\<lparr>noreplay := 1\<rparr>"

definition sbs2 :: "bch_sb list" where
  "sbs2 = [sb2, sb2\<lparr>sb_dev_idx := 1\<rparr>]"




section \<open>Reserve sizes\<close>

lemma unat_max_word: "unat (max a b) = max (unat a) (unat (b :: 'a::len word))"
  by (simp add: max_def word_le_nat_alt)

lemma unat_movinggc_reserve: "unat (movinggc_reserve m) = max 16 (unat (nbuckets m) div 128)"
  by (simp add: movinggc_reserve_def unat_max_word drop_bit_eq_div unat_div)

lemma unat_reserve_none: "unat (reserve_none m) = max 4 (unat (nbuckets m) div 512)"
  by (simp add: reserve_none_def unat_max_word drop_bit_eq_div unat_div)

lemma unat_free_inc_reserve: "unat (free_inc_reserve m) = unat (movinggc_reserve m) div 2"
  by (simp add: free_inc_reserve_def unat_div)

lemma unat_heap_size: "unat (heap_size m) = 8 * unat (movinggc_reserve m)"
proof -
  have "unat (nbuckets m) < 2 ^ 64"
    using unsigned_less [of "nbuckets m", where 'a = nat] by simp
  then have "unat (movinggc_reserve m) * 8 < 2 ^ 64"
    by (simp add: unat_movinggc_reserve)
  then show ?thesis
    by (simp add: heap_size_def unat_word_ariths)
qed

lemma movinggc_reserve_pos: "16 \<le> unat (movinggc_reserve m)"
  by (simp add: unat_movinggc_reserve)

lemma bch2_dev_alloc_slot:
  assumes "bch2_dev_alloc e c idx = Some (None, c')"
  shows "\<exists>member ms. sb_members (disk_sb c) = Some ms \<and> idx < length ms \<and> member = ms ! idx
           \<and> dev_slot c' idx = Some
             \<lparr>dev_idx = idx, uuid = m_uuid member, mi = bch2_mi_to_cpu member,
              free_btree = DIV_ROUND_UP (BTREE_NODE_RESERVE e)
                (unat (m_bucket_size member) div unat (btree_node_size (opts c))),
              free_movinggc = movinggc_reserve (bch2_mi_to_cpu member),
              free_none = reserve_none (bch2_mi_to_cpu member),
              free_inc = free_inc_reserve (bch2_mi_to_cpu member),
              alloc_heap = free_inc_reserve (bch2_mi_to_cpu member),
              copygc_heap = heap_size (bch2_mi_to_cpu member),
              disk_sb_bdev = False, io_ref = False,
              alloc_thread = False, moving_gc_read = False,
              in_rw_devs = False, journal_buckets = False\<rparr>"
  using assms
  by (auto simp: bch2_dev_alloc_def Let_def dev_slot_def slot_def set_dev_def bch2_mi_to_cpu_def
      split: if_splits option.splits)

text \<open>
  C9. Every device record that \<open>bch2_dev_alloc\<close> allocates and publishes in slot
  \<open>idx\<close> has, for its bucket count \<open>n\<close>: a moving-GC reserve of
  \<open>max 16 (n div 128)\<close>, a general-purpose reserve of \<open>max 4 (n div 512)\<close>, a
  \<open>free_inc\<close> reserve of half the moving-GC reserve, which is strictly smaller than it,
  and a copygc heap of 8 times the moving-GC reserve.
\<close>

theorem bch2_dev_alloc_reserve_sizes:
  assumes "bch2_dev_alloc e c idx = Some (None, c')"
  shows "\<exists>ca. dev_slot c' idx = Some ca
           \<and> unat (free_movinggc ca) = max 16 (unat (nbuckets (mi ca)) div 128)
           \<and> unat (free_none ca) = max 4 (unat (nbuckets (mi ca)) div 512)
           \<and> unat (free_inc ca) = unat (free_movinggc ca) div 2
           \<and> unat (free_inc ca) < unat (free_movinggc ca)
           \<and> unat (copygc_heap ca) = 8 * unat (free_movinggc ca)"
proof -
  from bch2_dev_alloc_slot [OF assms] obtain ca where
    slot: "dev_slot c' idx = Some ca"
    and mv: "free_movinggc ca = movinggc_reserve (mi ca)"
    and rn: "free_none ca = reserve_none (mi ca)"
    and fi: "free_inc ca = free_inc_reserve (mi ca)"
    and hp: "copygc_heap ca = heap_size (mi ca)"
    by auto
  have "unat (free_inc ca) < unat (free_movinggc ca)"
    using movinggc_reserve_pos [of "mi ca"] by (simp add: fi mv unat_free_inc_reserve)
  then show ?thesis
    using slot
    by (simp add: mv rn fi hp unat_movinggc_reserve unat_reserve_none
        unat_free_inc_reserve unat_heap_size)
qed

theorem bch2_dev_alloc_reserve_sizes_witness:
  "\<exists>c' ca. bch2_dev_alloc env_ok fs_new2 0 = Some (None, c') \<and> dev_slot c' 0 = Some ca
      \<and> nbuckets (mi ca) = 4096 \<and> unat (free_movinggc ca) = 32 \<and> unat (free_none ca) = 8
      \<and> unat (free_inc ca) = 16 \<and> unat (free_inc ca) < unat (free_movinggc ca)
      \<and> unat (copygc_heap ca) = 256"
proof -
  obtain c' where h: "bch2_dev_alloc env_ok fs_new2 0 = Some (None, c')"
    and nb: "\<And>ca. dev_slot c' 0 = Some ca \<Longrightarrow> nbuckets (mi ca) = 4096"
    by (simp add: bch2_dev_alloc_def env_ok_def fs_new2_def fs_ro2_def sb2_def opts2_def
        member_rw_def bch2_mi_to_cpu_def Let_def dev_slot_def slot_def set_dev_def)
  from bch2_dev_alloc_reserve_sizes [OF h] obtain ca where
    ca: "dev_slot c' 0 = Some ca"
      "unat (free_movinggc ca) = max 16 (unat (nbuckets (mi ca)) div 128)"
      "unat (free_none ca) = max 4 (unat (nbuckets (mi ca)) div 512)"
      "unat (free_inc ca) = unat (free_movinggc ca) div 2"
      "unat (free_inc ca) < unat (free_movinggc ca)"
      "unat (copygc_heap ca) = 8 * unat (free_movinggc ca)"
    by blast
  from nb [OF ca(1)] ca h show ?thesis
    by (intro exI [of _ c'] exI [of _ ca]) simp
qed

section \<open>Loops over the device table\<close>

lemma upd_dev_eq: "upd_dev i f c = c\<lparr>devs := (devs c)[i := map_option f (devs c ! i)]\<rparr>"
proof (cases "dev_slot c i")
  case None
  then have "(devs c)[i := map_option f (devs c ! i)] = devs c"
  proof (cases "i < length (devs c)")
    case True
    with None show ?thesis by (simp add: dev_slot_def slot_def list_update_same_conv)
  next
    case False
    then show ?thesis by (intro list_update_beyond) simp
  qed
  with None show ?thesis by (simp add: upd_dev_def)
next
  case (Some ca)
  then show ?thesis
    by (simp add: upd_dev_def set_dev_def dev_slot_def slot_def split: if_splits)
qed

lemma dev_call_eq:
  "dev_call ev f i c =
     c\<lparr>devs := (devs c)[i := map_option f (devs c ! i)], trace := trace c @ [ev i]\<rparr>"
  by (simp add: dev_call_def log_event_def upd_dev_eq)

lemma fold_dev_call:
  "fold (dev_call ev f) is c =
     c\<lparr>devs := devs_apply f is (devs c), trace := trace c @ map ev is\<rparr>"
  by (induction "is" arbitrary: c) (simp_all add: devs_apply_def dev_call_eq)

lemma length_devs_apply [simp]: "length (devs_apply f is ds) = length ds"
  by (induction "is" arbitrary: ds) (simp_all add: devs_apply_def)

lemma devs_apply_Nil [simp]: "devs_apply f [] ds = ds"
  by (simp add: devs_apply_def)

lemma devs_apply_Cons:
  "devs_apply f (i # is) ds = devs_apply f is (ds[i := map_option f (ds ! i)])"
  by (simp add: devs_apply_def)

lemma devs_apply_nth_notin: "j \<notin> set is \<Longrightarrow> devs_apply f is ds ! j = ds ! j"
  by (induction "is" arbitrary: ds) (auto simp: devs_apply_Cons)

lemma devs_apply_nth_in:
  "distinct is \<Longrightarrow> j \<in> set is \<Longrightarrow> j < length ds
     \<Longrightarrow> devs_apply f is ds ! j = map_option f (ds ! j)"
proof (induction "is" arbitrary: ds)
  case Nil
  then show ?case by simp
next
  case (Cons a "is")
  show ?case
  proof (cases "a = j")
    case True
    with Cons.prems show ?thesis
      by (simp add: devs_apply_Cons devs_apply_nth_notin)
  next
    case False
    with Cons.prems have "devs_apply f is (ds[a := map_option f (ds ! a)]) ! j
        = map_option f (ds[a := map_option f (ds ! a)] ! j)"
      by (intro Cons.IH) simp_all
    with False show ?thesis
      by (simp add: devs_apply_Cons)
  qed
qed

lemma devs_apply_None:
  "j < length ds \<Longrightarrow> (devs_apply f is ds ! j = None) = (ds ! j = None)"
proof (induction "is" arbitrary: ds)
  case Nil
  then show ?case by simp
next
  case (Cons i "is")
  then show ?case
    by (cases "i = j") (auto simp: devs_apply_Cons)
qed

lemma slot_devs_apply_None:
  "(slot (devs_apply f is ds) j = None) = (slot ds j = None)"
  by (simp add: slot_def devs_apply_None del: not_None_eq)

lemma mdevs_devs_apply [simp]: "mdevs n (devs_apply f is ds) = mdevs n ds"
  by (simp add: mdevs_def slot_devs_apply_None del: not_None_eq)

lemma distinct_mdevs [simp]: "distinct (mdevs n ds)"
  by (simp add: mdevs_def)

lemma distinct_rwdevs [simp]: "distinct (rwdevs n ds)"
  by (simp add: rwdevs_def)

lemma slot_devs_apply:
  "distinct is \<Longrightarrow> slot (devs_apply f is ds) j = (if j \<in> set is then map_option f (slot ds j) else slot ds j)"
  by (simp add: slot_def devs_apply_nth_in devs_apply_nth_notin)

lemma is_rw_member_map_option:
  "(\<And>ca. mi (f ca) = mi ca \<and> io_ref (f ca) = io_ref ca) \<Longrightarrow> is_rw_member (map_option f d) = is_rw_member d"
  by (cases d) (simp_all add: is_rw_member_def)

lemma is_rw_member_devs_apply:
  assumes "\<And>ca. mi (f ca) = mi ca \<and> io_ref (f ca) = io_ref ca"
  shows "is_rw_member (slot (devs_apply f is ds) j) = is_rw_member (slot ds j)"
proof (induction "is" arbitrary: ds)
  case Nil
  then show ?case by simp
next
  case (Cons i "is")
  have "is_rw_member (slot (ds[i := map_option f (ds ! i)]) j) = is_rw_member (slot ds j)"
    by (cases "i = j") (simp_all add: slot_def is_rw_member_map_option [OF assms])
  with Cons show ?case by (simp add: devs_apply_Cons)
qed

lemma rwdevs_devs_apply:
  "(\<And>ca. mi (f ca) = mi ca \<and> io_ref (f ca) = io_ref ca) \<Longrightarrow> rwdevs n (devs_apply f is ds) = rwdevs n ds"
  by (simp add: rwdevs_def is_rw_member_devs_apply)

lemma rwdevs_thread_updates [simp]:
  "rwdevs n (devs_apply (in_rw_devs_update g) is ds) = rwdevs n ds"
  "rwdevs n (devs_apply (alloc_thread_update g) is ds) = rwdevs n ds"
  "rwdevs n (devs_apply (moving_gc_read_update g) is ds) = rwdevs n ds"
  by (simp_all add: rwdevs_devs_apply)

section \<open>The RW to RO teardown\<close>

lemma uu_bch2_fs_read_only_eq:
  "uu_bch2_fs_read_only c =
     c\<lparr>tiering_read := False, gc_thread := False,
       fs_journal := (fs_journal c)\<lparr>j_started := False\<rparr>,
       devs := teardown_devs (member_devices c) (devs c),
       trace := trace c @ teardown_events (j_error (fs_journal c)) (member_devices c)\<rparr>"
  by (simp add: uu_bch2_fs_read_only_def Let_def bch2_tiering_stop_def bch2_moving_gc_stop_def
      bch2_gc_thread_stop_def bch2_journal_flush_pins_def bch2_journal_error_def
      bch2_btree_verify_flushed_def bch2_dev_allocator_stop_def bch2_fs_journal_stop_def
      bch2_dev_allocator_remove_def fold_dev_call log_event_def teardown_events_def
      teardown_devs_def member_devices_def)

lemma mdevs_teardown_devs [simp]: "mdevs n (teardown_devs ms ds) = mdevs n ds"
  by (simp add: teardown_devs_def)

lemma rwdevs_teardown_devs [simp]: "rwdevs n (teardown_devs ms ds) = rwdevs n ds"
  by (simp add: teardown_devs_def)

lemma count_teardown_events [simp]:
  "count_list (teardown_events jerr ms) Ev_journal_flush_pins = 1"
proof -
  have "\<And>f. (\<And>i. f i \<noteq> Ev_journal_flush_pins) \<Longrightarrow> count_list (map f ms) Ev_journal_flush_pins = 0"
    by (induction ms) simp_all
  then show ?thesis by (simp add: teardown_events_def)
qed

lemma count_list_append [simp]: "count_list (xs @ ys) a = count_list xs a + count_list ys a"
  by (induction xs) simp_all

text \<open>
  C4. In \<open>__bch2_fs_read_only\<close> the journal pins are flushed after the tiering stop,
  the moving-GC stop of every member device and the mark-and-sweep stop, which are all
  that precedes the flush; every allocator stop comes after the flush (and after the
  check that the btree is flushed, made when the journal has no error); the journal is
  stopped after the allocator stops; and removing every member device from the
  allocation pool comes last.
\<close>

theorem uu_bch2_fs_read_only_order:
  "\<exists>stops verify.
      trace (uu_bch2_fs_read_only c) =
        trace c @ stops @ [Ev_journal_flush_pins] @ verify
          @ map Ev_dev_allocator_stop (member_devices c) @ [Ev_fs_journal_stop]
          @ map Ev_dev_allocator_remove (member_devices c)
    \<and> set stops = {Ev_tiering_stop, Ev_gc_thread_stop} \<union> Ev_moving_gc_stop ` set (member_devices c)
    \<and> set verify \<subseteq> {Ev_btree_verify_flushed}"
proof -
  let ?ms = "member_devices c"
  let ?stops = "Ev_tiering_stop # map Ev_moving_gc_stop ?ms @ [Ev_gc_thread_stop]"
  let ?verify = "if j_error (fs_journal c) then [] else [Ev_btree_verify_flushed]"
  have "trace (uu_bch2_fs_read_only c) =
        trace c @ ?stops @ [Ev_journal_flush_pins] @ ?verify
          @ map Ev_dev_allocator_stop ?ms @ [Ev_fs_journal_stop]
          @ map Ev_dev_allocator_remove ?ms"
    by (simp add: uu_bch2_fs_read_only_eq teardown_events_def)
  moreover have "set ?stops = {Ev_tiering_stop, Ev_gc_thread_stop} \<union> Ev_moving_gc_stop ` set ?ms"
    by auto
  moreover have "set ?verify \<subseteq> {Ev_btree_verify_flushed}"
    by simp
  ultimately show ?thesis by blast
qed

theorem uu_bch2_fs_read_only_order_witness:
  "trace (uu_bch2_fs_read_only fs_rw2) =
     [Ev_tiering_stop, Ev_moving_gc_stop 0, Ev_moving_gc_stop 1, Ev_gc_thread_stop,
      Ev_journal_flush_pins, Ev_btree_verify_flushed,
      Ev_dev_allocator_stop 0, Ev_dev_allocator_stop 1, Ev_fs_journal_stop,
      Ev_dev_allocator_remove 0, Ev_dev_allocator_remove 1]
   \<and> member_devices fs_rw2 = [0, 1]
   \<and> (\<exists>stops verify.
        trace (uu_bch2_fs_read_only fs_rw2) =
          trace fs_rw2 @ stops @ [Ev_journal_flush_pins] @ verify
            @ map Ev_dev_allocator_stop (member_devices fs_rw2) @ [Ev_fs_journal_stop]
            @ map Ev_dev_allocator_remove (member_devices fs_rw2)
      \<and> set stops = {Ev_tiering_stop, Ev_gc_thread_stop}
           \<union> Ev_moving_gc_stop ` set (member_devices fs_rw2)
      \<and> set verify \<subseteq> {Ev_btree_verify_flushed})"
proof -
  have t: "trace (uu_bch2_fs_read_only fs_rw2) =
     [Ev_tiering_stop, Ev_moving_gc_stop 0, Ev_moving_gc_stop 1, Ev_gc_thread_stop,
      Ev_journal_flush_pins, Ev_btree_verify_flushed,
      Ev_dev_allocator_stop 0, Ev_dev_allocator_stop 1, Ev_fs_journal_stop,
      Ev_dev_allocator_remove 0, Ev_dev_allocator_remove 1]"
    by code_simp
  have m: "member_devices fs_rw2 = [0, 1]"
    by code_simp
  from t m uu_bch2_fs_read_only_order [of fs_rw2] show ?thesis
    by blast
qed

section \<open>bch2_fs_read_only\<close>

lemma wait_event_read_only_eq:
  "wait_event_read_only P c =
     (if P c then c
      else c\<lparr>writes_in_flight := 0,
             fs_flags := insert BCH_FS_WRITE_DISABLE_COMPLETE (fs_flags c)\<rparr>)"
  by (simp add: wait_event_read_only_def bch2_writes_disabled_def)

lemma bch2_fs_read_only_eq:
  assumes "fs_state c = BCH_FS_STARTING \<or> fs_state c = BCH_FS_RW" "BCH_FS_ERROR \<notin> fs_flags c"
  shows "bch2_fs_read_only c =
     c\<lparr>fs_state := BCH_FS_RO,
       fs_flags := fs_flags c - {BCH_FS_WRITE_DISABLE_COMPLETE},
       writes_dead := True,
       writes_in_flight :=
         (if BCH_FS_WRITE_DISABLE_COMPLETE \<in> fs_flags c then writes_in_flight c else 0),
       pd_controllers_update := False,
       tiering_read := False, gc_thread := False,
       fs_journal := (fs_journal c)\<lparr>j_started := False\<rparr>,
       devs := teardown_devs (member_devices c) (devs c),
       disk_sb := (if j_error (fs_journal c) then disk_sb c else (disk_sb c)\<lparr>sb_clean := True\<rparr>),
       trace := trace c @ teardown_events (j_error (fs_journal c)) (member_devices c)
                @ (if j_error (fs_journal c) then [] else [Ev_write_super])\<rparr>"
proof -
  have st: "fs_state c \<noteq> BCH_FS_STARTING \<and> fs_state c \<noteq> BCH_FS_RW \<longleftrightarrow> False"
    using assms(1) by auto
  show ?thesis
  proof (cases "BCH_FS_WRITE_DISABLE_COMPLETE \<in> fs_flags c")
    case True
    then show ?thesis
      using assms(2)
      by (cases "j_error (fs_journal c)")
        (simp_all add: bch2_fs_read_only_def st Let_def percpu_ref_kill_writes_def
          wait_event_read_only_eq uu_bch2_fs_read_only_eq
          bch2_journal_error_def bch2_write_super_def SET_BCH_SB_CLEAN_def log_event_def
          member_devices_def)
  next
    case False
    then show ?thesis
      using assms(2)
      by (cases "j_error (fs_journal c)"; cases "BCH_FS_EMERGENCY_RO \<in> fs_flags c")
        (simp_all add: bch2_fs_read_only_def st Let_def percpu_ref_kill_writes_def
          wait_event_read_only_eq uu_bch2_fs_read_only_eq
          bch2_journal_error_def bch2_write_super_def SET_BCH_SB_CLEAN_def log_event_def
          member_devices_def)
  qed
qed

text \<open>
  C7. \<open>bch2_fs_read_only\<close> on an instance whose state is already RO returns the
  instance as it is: the state, the flags, the superblock and everything else are
  unchanged.
\<close>

theorem bch2_fs_read_only_noop:
  "fs_state c = BCH_FS_RO \<Longrightarrow> bch2_fs_read_only c = c"
  by (simp add: bch2_fs_read_only_def)

theorem bch2_fs_read_only_noop_witness:
  "fs_state fs_ro2 = BCH_FS_RO \<and> bch2_fs_read_only fs_ro2 = fs_ro2"
proof -
  have h: "fs_state fs_ro2 = BCH_FS_RO" by (simp add: fs_ro2_def)
  from h bch2_fs_read_only_noop [OF h] show ?thesis by simp
qed

text \<open>
  C6 (as amended). When \<open>bch2_fs_read_only\<close> runs the teardown (the state is STARTING
  or RW and the ERROR flag is not set), the call ends in state RO. If moreover the journal
  is not in error, the superblock is marked clean and written right after the teardown;
  if the journal is in error, the superblock is left as it was and is not written.
\<close>

theorem bch2_fs_read_only_clean:
  assumes "fs_state c = BCH_FS_STARTING \<or> fs_state c = BCH_FS_RW" "BCH_FS_ERROR \<notin> fs_flags c"
  shows "fs_state (bch2_fs_read_only c) = BCH_FS_RO
    \<and> (if bch2_journal_error c
        then disk_sb (bch2_fs_read_only c) = disk_sb c
           \<and> trace (bch2_fs_read_only c) = trace (uu_bch2_fs_read_only c)
        else sb_clean (disk_sb (bch2_fs_read_only c))
           \<and> trace (bch2_fs_read_only c) = trace (uu_bch2_fs_read_only c) @ [Ev_write_super])"
  by (simp add: bch2_fs_read_only_eq [OF assms] uu_bch2_fs_read_only_eq bch2_journal_error_def)

theorem bch2_fs_read_only_clean_witness:
  "(fs_state fs_rw2 = BCH_FS_STARTING \<or> fs_state fs_rw2 = BCH_FS_RW)
   \<and> BCH_FS_ERROR \<notin> fs_flags fs_rw2
   \<and> fs_state (bch2_fs_read_only fs_rw2) = BCH_FS_RO
   \<and> sb_clean (disk_sb (bch2_fs_read_only fs_rw2))
   \<and> trace (bch2_fs_read_only fs_rw2) = trace (uu_bch2_fs_read_only fs_rw2) @ [Ev_write_super]"
proof -
  have h: "fs_state fs_rw2 = BCH_FS_STARTING \<or> fs_state fs_rw2 = BCH_FS_RW"
    "BCH_FS_ERROR \<notin> fs_flags fs_rw2"
    by (simp_all add: fs_rw2_def)
  have j: "\<not> bch2_journal_error fs_rw2"
    by (simp add: bch2_journal_error_def fs_rw2_def)
  from h j bch2_fs_read_only_clean [OF h] show ?thesis by simp
qed

text \<open>The claim C6 as stated fails: with the ERROR flag clear but the journal in error
  (as after \<open>bch2_journal_halt\<close>), the teardown runs and the state becomes RO, but the
  superblock is neither marked clean nor written.\<close>

theorem bch2_fs_read_only_clean_counterexample:
  "fs_state fs_rw_jerr = BCH_FS_RW \<and> BCH_FS_ERROR \<notin> fs_flags fs_rw_jerr
   \<and> bch2_journal_error fs_rw_jerr
   \<and> fs_state (bch2_fs_read_only fs_rw_jerr) = BCH_FS_RO
   \<and> teardowns (bch2_fs_read_only fs_rw_jerr) = 1
   \<and> \<not> sb_clean (disk_sb (bch2_fs_read_only fs_rw_jerr))
   \<and> Ev_write_super \<notin> set (trace (bch2_fs_read_only fs_rw_jerr))"
proof -
  have h: "fs_state fs_rw_jerr = BCH_FS_STARTING \<or> fs_state fs_rw_jerr = BCH_FS_RW"
    "BCH_FS_ERROR \<notin> fs_flags fs_rw_jerr"
    by (simp_all add: fs_rw_jerr_def fs_rw2_def)
  have f: "fs_state fs_rw_jerr = BCH_FS_RW" "j_error (fs_journal fs_rw_jerr)"
    "trace fs_rw_jerr = []" "\<not> sb_clean (disk_sb fs_rw_jerr)"
    by (simp_all add: fs_rw_jerr_def fs_rw2_def sb2_def)
  have "Ev_write_super \<notin> set (teardown_events True ms)" for ms
    by (auto simp: teardown_events_def)
  with h f show ?thesis
    by (simp add: bch2_fs_read_only_eq [OF h] teardowns_def bch2_journal_error_def)
qed

section \<open>bch2_fs_read_write\<close>

lemma start_each_dev_call:
  "start_each (\<lambda>i c. if fails i then (True, c) else (False, dev_call ev g i c)) is c =
     (list_ex fails is,
      c\<lparr>devs := devs_apply g (takeWhile (\<lambda>i. \<not> fails i) is) (devs c),
        trace := trace c @ map ev (takeWhile (\<lambda>i. \<not> fails i) is)\<rparr>)"
  by (induction "is" arbitrary: c) (simp_all add: dev_call_eq devs_apply_Cons)

lemma start_each_allocator:
  "start_each (bch2_dev_allocator_start e) is c =
     (list_ex (dev_allocator_start_fails e) is,
      c\<lparr>devs := devs_apply (\<lambda>ca. ca\<lparr>alloc_thread := True\<rparr>)
                 (takeWhile (\<lambda>i. \<not> dev_allocator_start_fails e i) is) (devs c),
        trace := trace c @ map Ev_dev_allocator_start
                 (takeWhile (\<lambda>i. \<not> dev_allocator_start_fails e i) is)\<rparr>)"
proof -
  have "bch2_dev_allocator_start e =
      (\<lambda>i c. if dev_allocator_start_fails e i then (True, c)
              else (False, dev_call Ev_dev_allocator_start (\<lambda>ca. ca\<lparr>alloc_thread := True\<rparr>) i c))"
    by (intro ext) (simp add: bch2_dev_allocator_start_def)
  then show ?thesis by (simp only: start_each_dev_call)
qed

lemma start_each_moving_gc:
  "start_each (bch2_moving_gc_start e) is c =
     (list_ex (moving_gc_start_fails e) is,
      c\<lparr>devs := devs_apply (\<lambda>ca. ca\<lparr>moving_gc_read := True\<rparr>)
                 (takeWhile (\<lambda>i. \<not> moving_gc_start_fails e i) is) (devs c),
        trace := trace c @ map Ev_moving_gc_start
                 (takeWhile (\<lambda>i. \<not> moving_gc_start_fails e i) is)\<rparr>)"
proof -
  have "bch2_moving_gc_start e =
      (\<lambda>i c. if moving_gc_start_fails e i then (True, c)
              else (False, dev_call Ev_moving_gc_start (\<lambda>ca. ca\<lparr>moving_gc_read := True\<rparr>) i c))"
    by (intro ext) (simp add: bch2_moving_gc_start_def)
  then show ?thesis by (simp only: start_each_dev_call)
qed

lemma rw_added_props:
  "rw_members (rw_added c) = rw_members c" "fs_state (rw_added c) = fs_state c"
  "fs_flags (rw_added c) = fs_flags c"
  by (simp_all add: rw_added_def rw_members_def bch2_recalc_capacity_def
      bch2_dev_allocator_add_def fold_dev_call log_event_def)

lemma rw_allocators_props:
  "rw_members (rw_allocators e c) = rw_members c" "fs_state (rw_allocators e c) = fs_state c"
  "fs_flags (rw_allocators e c) = fs_flags c"
  using rw_added_props [of c]
  by (simp_all add: rw_allocators_def start_each_allocator rw_members_def)

lemma rw_gc_props:
  "rw_members (rw_gc e c) = rw_members c" "fs_state (rw_gc e c) = fs_state c"
  "fs_flags (rw_gc e c) = fs_flags c"
  using rw_allocators_props [of e c]
  by (simp_all add: rw_gc_def bch2_gc_thread_start_def log_event_def rw_members_def)

lemma rw_moving_gc_props:
  "rw_members (rw_moving_gc e c) = rw_members c" "fs_state (rw_moving_gc e c) = fs_state c"
  "fs_flags (rw_moving_gc e c) = fs_flags c"
  using rw_gc_props [of e c]
  by (simp_all add: rw_moving_gc_def start_each_moving_gc rw_members_def)

lemma rw_tiering_props:
  "rw_members (rw_tiering e c) = rw_members c" "fs_state (rw_tiering e c) = fs_state c"
  "fs_flags (rw_tiering e c) = fs_flags c"
  using rw_moving_gc_props [of e c]
  by (simp_all add: rw_tiering_def bch2_tiering_start_def log_event_def rw_members_def)

lemma bch2_fs_read_write_eq:
  "bch2_fs_read_write e c =
     (if fs_state c \<noteq> BCH_FS_STARTING \<and> fs_state c \<noteq> BCH_FS_RO then (None, c)
      else if list_ex (dev_allocator_start_fails e) (rw_members c)
        then (Some ''error starting allocator thread'', uu_bch2_fs_read_only (rw_allocators e c))
      else if gc_thread_start_fails e
        then (Some ''error starting btree GC thread'', uu_bch2_fs_read_only (rw_gc e c))
      else if list_ex (moving_gc_start_fails e) (rw_members c)
        then (Some ''error starting moving GC thread'', uu_bch2_fs_read_only (rw_moving_gc e c))
      else if tiering_start_fails e
        then (Some ''error starting tiering thread'', uu_bch2_fs_read_only (rw_tiering e c))
      else (None, (rw_tiering e c)
             \<lparr>pd_controllers_update := True,
              trace := trace (rw_tiering e c) @ [Ev_pd_controllers_update],
              writes_dead := (if fs_state c = BCH_FS_STARTING then writes_dead (rw_tiering e c) else False),
              fs_state := BCH_FS_RW\<rparr>))"
proof -
  have a: "start_each (bch2_dev_allocator_start e) (rw_members (rw_added c)) (rw_added c)
      = (list_ex (dev_allocator_start_fails e) (rw_members c), rw_allocators e c)"
    by (simp add: rw_allocators_def rw_added_props start_each_allocator)
  have g: "bch2_gc_thread_start e (rw_allocators e c) = (gc_thread_start_fails e, rw_gc e c)"
    by (simp add: rw_gc_def bch2_gc_thread_start_def)
  have m: "start_each (bch2_moving_gc_start e) (rw_members (rw_gc e c)) (rw_gc e c)
      = (list_ex (moving_gc_start_fails e) (rw_members c), rw_moving_gc e c)"
    by (simp add: rw_moving_gc_def rw_gc_props start_each_moving_gc)
  have t: "bch2_tiering_start e (rw_moving_gc e c) = (tiering_start_fails e, rw_tiering e c)"
    by (simp add: rw_tiering_def bch2_tiering_start_def)
  show ?thesis
    by (simp add: bch2_fs_read_write_def Let_def a [unfolded rw_added_def] g m t log_event_def
        percpu_ref_reinit_writes_def rw_tiering_props)
qed

lemma slot_teardown_devs:
  "slot (teardown_devs (mdevs n ds) ds) j =
     (if j < n then map_option (\<lambda>ca. ca\<lparr>moving_gc_read := False, alloc_thread := False, in_rw_devs := False\<rparr>) (slot ds j)
      else slot ds j)"
proof (cases "j \<in> set (mdevs n ds)")
  case True
  then show ?thesis
    by (simp add: teardown_devs_def slot_devs_apply mdevs_def option.map_comp comp_def)
next
  case False
  then have "j < n \<Longrightarrow> slot ds j = None"
    by (simp add: mdevs_def)
  with False show ?thesis
    by (auto simp add: teardown_devs_def slot_devs_apply)
qed

lemma no_workers_teardown: "no_workers (uu_bch2_fs_read_only c)"
  by (simp add: no_workers_def uu_bch2_fs_read_only_eq dev_slot_def member_devices_def
      slot_teardown_devs list_all_iff split: option.splits)

lemma fs_state_teardown [simp]: "fs_state (uu_bch2_fs_read_only c) = fs_state c"
  by (simp add: uu_bch2_fs_read_only_eq)

lemma fs_flags_teardown [simp]: "fs_flags (uu_bch2_fs_read_only c) = fs_flags c"
  by (simp add: uu_bch2_fs_read_only_eq)

lemma bch2_fs_read_write_fails_iff:
  "(fst (bch2_fs_read_write e c) \<noteq> None) =
     ((fs_state c = BCH_FS_STARTING \<or> fs_state c = BCH_FS_RO) \<and> some_start_fails e c)"
  by (auto simp add: bch2_fs_read_write_eq some_start_fails_def)

lemma some_start_fails_flags [simp]: "some_start_fails e (c\<lparr>fs_flags := F\<rparr>) = some_start_fails e c"
  by (simp add: some_start_fails_def rw_members_def)

lemma rw_members_flags [simp]: "rw_members (c\<lparr>fs_flags := F\<rparr>) = rw_members c"
  by (simp add: rw_members_def)

lemma member_devices_flags [simp]: "member_devices (c\<lparr>fs_flags := F\<rparr>) = member_devices c"
  by (simp add: member_devices_def)

lemma uu_flags: "uu_bch2_fs_read_only (c\<lparr>fs_flags := F\<rparr>) = (uu_bch2_fs_read_only c)\<lparr>fs_flags := F\<rparr>"
  by (simp add: uu_bch2_fs_read_only_eq)

lemma rw_added_flags: "rw_added (c\<lparr>fs_flags := F\<rparr>) = (rw_added c)\<lparr>fs_flags := F\<rparr>"
  by (simp add: rw_added_def bch2_recalc_capacity_def bch2_dev_allocator_add_def fold_dev_call
      log_event_def)

lemma rw_allocators_flags: "rw_allocators e (c\<lparr>fs_flags := F\<rparr>) = (rw_allocators e c)\<lparr>fs_flags := F\<rparr>"
  by (simp add: rw_allocators_def rw_added_flags start_each_allocator)

lemma rw_gc_flags: "rw_gc e (c\<lparr>fs_flags := F\<rparr>) = (rw_gc e c)\<lparr>fs_flags := F\<rparr>"
  by (simp add: rw_gc_def rw_allocators_flags bch2_gc_thread_start_def log_event_def)

lemma rw_moving_gc_flags: "rw_moving_gc e (c\<lparr>fs_flags := F\<rparr>) = (rw_moving_gc e c)\<lparr>fs_flags := F\<rparr>"
  by (simp add: rw_moving_gc_def rw_gc_flags start_each_moving_gc)

lemma rw_tiering_flags: "rw_tiering e (c\<lparr>fs_flags := F\<rparr>) = (rw_tiering e c)\<lparr>fs_flags := F\<rparr>"
  by (simp add: rw_tiering_def rw_moving_gc_flags bch2_tiering_start_def log_event_def)

lemma some_start_fails_env_ok [simp]: "\<not> some_start_fails env_ok c"
  by (simp add: some_start_fails_def env_ok_def list_ex_iff)

text \<open>
  C3. Whenever a start step of \<open>bch2_fs_read_write\<close> fails (the allocator thread of
  an RW member, the mark-and-sweep thread, the moving-GC thread of an RW member, or the
  tiering thread), the call returns one of its four error strings, the state it returns is
  the result of the teardown \<open>__bch2_fs_read_only\<close>, the state field is the one the
  instance had before the call (STARTING or RO), and no worker is running.
\<close>

theorem bch2_fs_read_write_rollback:
  assumes "fs_state c = BCH_FS_STARTING \<or> fs_state c = BCH_FS_RO" and "some_start_fails e c"
  shows "\<exists>err c0. bch2_fs_read_write e c = (Some err, uu_bch2_fs_read_only c0)
       \<and> err \<in> {''error starting allocator thread'', ''error starting btree GC thread'',
                 ''error starting moving GC thread'', ''error starting tiering thread''}
       \<and> fs_state (snd (bch2_fs_read_write e c)) = fs_state c
       \<and> no_workers (snd (bch2_fs_read_write e c))"
  using assms
  by (auto simp add: bch2_fs_read_write_eq some_start_fails_def no_workers_teardown
      rw_allocators_props rw_gc_props rw_moving_gc_props rw_tiering_props)

theorem bch2_fs_read_write_rollback_witness:
  "(fs_state fs_ro2 = BCH_FS_STARTING \<or> fs_state fs_ro2 = BCH_FS_RO)
   \<and> some_start_fails env_gc_fails fs_ro2
   \<and> fst (bch2_fs_read_write env_gc_fails fs_ro2) \<noteq> None
   \<and> fs_state (snd (bch2_fs_read_write env_gc_fails fs_ro2)) = BCH_FS_RO
   \<and> no_workers (snd (bch2_fs_read_write env_gc_fails fs_ro2))"
proof -
  have h: "fs_state fs_ro2 = BCH_FS_STARTING \<or> fs_state fs_ro2 = BCH_FS_RO"
    "some_start_fails env_gc_fails fs_ro2"
    by (simp_all add: fs_ro2_def some_start_fails_def env_gc_fails_def)
  have "fs_state fs_ro2 = BCH_FS_RO" by (simp add: fs_ro2_def)
  with h bch2_fs_read_write_rollback [OF h] show ?thesis by auto
qed

text \<open>
  C2 (as amended). \<open>bch2_fs_read_write\<close> neither reads nor writes the flags: run with
  any other flag set \<open>F\<close> it returns the same error and the same instance, up to the
  flags. The state after the call is RW exactly when it was RW before, or it was STARTING
  or RO and no start step fails.
\<close>

theorem bch2_fs_read_write_ignores_flags:
  "bch2_fs_read_write e (c\<lparr>fs_flags := F\<rparr>) =
     (fst (bch2_fs_read_write e c), (snd (bch2_fs_read_write e c))\<lparr>fs_flags := F\<rparr>)
   \<and> (fs_state (snd (bch2_fs_read_write e c)) = BCH_FS_RW) =
     (fs_state c = BCH_FS_RW
      \<or> (fs_state c = BCH_FS_STARTING \<or> fs_state c = BCH_FS_RO) \<and> \<not> some_start_fails e c)"
  by (auto simp add: bch2_fs_read_write_eq uu_flags rw_allocators_flags rw_gc_flags
      rw_moving_gc_flags rw_tiering_flags some_start_fails_def
      rw_allocators_props rw_gc_props rw_moving_gc_props rw_tiering_props)

text \<open>The claim C2 as stated fails: an instance in state RO with the ERROR flag set is
  moved to RW, the function returns NULL and workers are started.\<close>

theorem bch2_fs_read_write_error_flag_counterexample:
  "fs_state fs_ro_err = BCH_FS_RO \<and> BCH_FS_ERROR \<in> fs_flags fs_ro_err
   \<and> fst (bch2_fs_read_write env_ok fs_ro_err) = None
   \<and> fs_state (snd (bch2_fs_read_write env_ok fs_ro_err)) = BCH_FS_RW
   \<and> gc_thread (snd (bch2_fs_read_write env_ok fs_ro_err))
   \<and> BCH_FS_ERROR \<in> fs_flags (snd (bch2_fs_read_write env_ok fs_ro_err))"
proof -
  have st: "fs_state fs_ro_err = BCH_FS_RO" "fs_flags fs_ro_err = {BCH_FS_ERROR}"
    by (simp_all add: fs_ro_err_def fs_ro2_def)
  have nf: "\<not> list_ex (dev_allocator_start_fails env_ok) xs" "\<not> gc_thread_start_fails env_ok"
    "\<not> list_ex (moving_gc_start_fails env_ok) xs" "\<not> tiering_start_fails env_ok" for xs
    by (simp_all add: env_ok_def list_ex_iff)
  have "bch2_fs_read_write env_ok fs_ro_err =
     (None, (rw_tiering env_ok fs_ro_err)
             \<lparr>pd_controllers_update := True,
              trace := trace (rw_tiering env_ok fs_ro_err) @ [Ev_pd_controllers_update],
              writes_dead := False, fs_state := BCH_FS_RW\<rparr>)"
    by (simp add: bch2_fs_read_write_eq st nf)
  moreover have "gc_thread (rw_tiering env_ok fs_ro_err)"
    by (simp add: rw_tiering_def bch2_tiering_start_def rw_moving_gc_def start_each_moving_gc
        rw_gc_def bch2_gc_thread_start_def nf log_event_def)
  ultimately show ?thesis
    by (simp add: st rw_tiering_props)
qed


section \<open>bch2_fs_emergency_read_only\<close>

lemma bch2_fs_emergency_read_only_eq:
  "bch2_fs_emergency_read_only c =
     (BCH_FS_EMERGENCY_RO \<notin> fs_flags c,
      c\<lparr>fs_flags := insert BCH_FS_EMERGENCY_RO (fs_flags c), read_only_work := True,
        fs_journal := (fs_journal c)\<lparr>j_error := True\<rparr>,
        trace := trace c @ (if read_only_work c then [] else [Ev_queue_read_only_work])
                 @ [Ev_journal_halt]\<rparr>)"
  by (simp add: bch2_fs_emergency_read_only_def Let_def bch2_fs_read_only_async_def
      queue_read_only_work_def bch2_journal_halt_def log_event_def)

lemma teardowns_read_only:
  "teardowns (bch2_fs_read_only c) = teardowns c + (if may_tear_down c then 1 else 0)"
proof (cases "may_tear_down c")
  case True
  then have "fs_state c = BCH_FS_STARTING \<or> fs_state c = BCH_FS_RW" "BCH_FS_ERROR \<notin> fs_flags c"
    by (simp_all add: may_tear_down_def)
  from bch2_fs_read_only_eq [OF this] True show ?thesis
    by (simp add: teardowns_def)
next
  case False
  then have "bch2_fs_read_only c = c"
    by (auto simp: bch2_fs_read_only_def may_tear_down_def)
  with False show ?thesis by simp
qed

lemma not_may_tear_down_read_only: "\<not> may_tear_down (bch2_fs_read_only c)"
proof (cases "may_tear_down c")
  case True
  then have "fs_state c = BCH_FS_STARTING \<or> fs_state c = BCH_FS_RW" "BCH_FS_ERROR \<notin> fs_flags c"
    by (simp_all add: may_tear_down_def)
  from bch2_fs_read_only_eq [OF this] show ?thesis
    by (simp add: may_tear_down_def)
next
  case False
  then have "bch2_fs_read_only c = c"
    by (auto simp: bch2_fs_read_only_def may_tear_down_def)
  with False show ?thesis by simp
qed

lemma emergency_props:
  "may_tear_down (snd (bch2_fs_emergency_read_only c)) = may_tear_down c"
  "teardowns (snd (bch2_fs_emergency_read_only c)) = teardowns c"
  "read_only_work (snd (bch2_fs_emergency_read_only c))"
  "BCH_FS_EMERGENCY_RO \<in> fs_flags (snd (bch2_fs_emergency_read_only c))"
  by (simp_all add: bch2_fs_emergency_read_only_eq may_tear_down_def teardowns_def)

lemma run_read_only_work_pending:
  "read_only_work c \<Longrightarrow>
     teardowns (run_read_only_work c) = teardowns c + (if may_tear_down c then 1 else 0)
     \<and> \<not> may_tear_down (run_read_only_work c)"
  by (simp add: run_read_only_work_def bch2_fs_read_only_work_def teardowns_read_only
      not_may_tear_down_read_only)
    (simp add: teardowns_def may_tear_down_def)

lemma teardowns_emergency_pair:
  "teardowns (run_read_only_work (snd (bch2_fs_emergency_read_only
      (snd (bch2_fs_emergency_read_only c))))) = teardowns c + (if may_tear_down c then 1 else 0)"
  by (simp add: run_read_only_work_pending emergency_props)

lemma teardowns_emergency_interleaved:
  "teardowns (run_read_only_work (snd (bch2_fs_emergency_read_only
      (run_read_only_work (snd (bch2_fs_emergency_read_only c)))))) =
    teardowns c + (if may_tear_down c then 1 else 0)"
  by (simp add: run_read_only_work_pending emergency_props)

text \<open>
  C8 (as amended). \<open>bch2_fs_emergency_read_only\<close> returns true exactly when the
  EMERGENCY_RO flag was not set before the call, and the second of two successive calls
  returns false. The first call leaves the read-only work pending and the second call
  does not queue it again: it only halts the journal. When the queued work has run, the
  pair has caused exactly one teardown if the instance was STARTING or RW with the ERROR
  flag clear, and none otherwise; this holds whether the work runs after both calls or
  also between them.
\<close>

theorem bch2_fs_emergency_read_only_twice:
  "fst (bch2_fs_emergency_read_only c) = (BCH_FS_EMERGENCY_RO \<notin> fs_flags c)
   \<and> \<not> fst (bch2_fs_emergency_read_only (snd (bch2_fs_emergency_read_only c)))
   \<and> read_only_work (snd (bch2_fs_emergency_read_only c))
   \<and> trace (snd (bch2_fs_emergency_read_only (snd (bch2_fs_emergency_read_only c)))) =
      trace (snd (bch2_fs_emergency_read_only c)) @ [Ev_journal_halt]
   \<and> teardowns (run_read_only_work (snd (bch2_fs_emergency_read_only
        (snd (bch2_fs_emergency_read_only c))))) =
      teardowns c + (if (fs_state c = BCH_FS_STARTING \<or> fs_state c = BCH_FS_RW)
                        \<and> BCH_FS_ERROR \<notin> fs_flags c then 1 else 0)
   \<and> teardowns (run_read_only_work (snd (bch2_fs_emergency_read_only
        (run_read_only_work (snd (bch2_fs_emergency_read_only c)))))) =
      teardowns c + (if (fs_state c = BCH_FS_STARTING \<or> fs_state c = BCH_FS_RW)
                        \<and> BCH_FS_ERROR \<notin> fs_flags c then 1 else 0)"
  using teardowns_emergency_pair [of c] teardowns_emergency_interleaved [of c]
    emergency_props(4) [of c]
  by (simp add: may_tear_down_def bch2_fs_emergency_read_only_eq)

text \<open>The claim C8 as stated fails: on an instance that is already RO the two calls
  queue the work, and the work returns at once without a teardown.\<close>

theorem bch2_fs_emergency_read_only_counterexample:
  "fs_state fs_ro2 = BCH_FS_RO
   \<and> read_only_work (snd (bch2_fs_emergency_read_only (snd (bch2_fs_emergency_read_only fs_ro2))))
   \<and> teardowns fs_ro2 = 0
   \<and> teardowns (run_read_only_work (snd (bch2_fs_emergency_read_only
        (snd (bch2_fs_emergency_read_only fs_ro2))))) = 0"
proof -
  have "fs_state fs_ro2 = BCH_FS_RO" "trace fs_ro2 = []"
    by (simp_all add: fs_ro2_def)
  then have "\<not> may_tear_down fs_ro2" "teardowns fs_ro2 = 0"
    by (simp_all add: may_tear_down_def teardowns_def)
  then show ?thesis
    using teardowns_emergency_pair [of fs_ro2] emergency_props(3)
    by (simp add: \<open>fs_state fs_ro2 = BCH_FS_RO\<close>)
qed

section \<open>bch2_dev_state_allowed\<close>

text \<open>
  C1. The code at the input of the claim: two replicas of data and metadata are
  configured, exactly two member devices are RW, and no force flag is given. The request
  to set one of them RO is allowed, because the code compares \<open>nr_rw - 1 <= required\<close>.
\<close>

theorem bch2_dev_state_allowed_two_rw:
  "mi_state (mi (dev_rw 0 True)) = BCH_MEMBER_STATE_RW \<and> dev_slot fs_rw2 0 = Some (dev_rw 0 True)
   \<and> nr_rw fs_rw2 = 2 \<and> required fs_rw2 {} = 2
   \<and> bch2_dev_state_allowed env_ok fs_rw2 (dev_rw 0 True) BCH_MEMBER_STATE_RO {}"
  by code_simp


section \<open>Startup\<close>

lemma kept_refl [simp]: "kept c c"
  by (simp add: kept_def)

lemma kept_trans: "kept a b \<Longrightarrow> kept b c \<Longrightarrow> kept a c"
  by (simp add: kept_def)

lemma kept_log_event [simp]: "kept c (log_event ev c')= kept c c'"
  by (simp add: kept_def log_event_def)

lemma kept_dev_call [simp]: "kept c (dev_call ev f i c') = kept c c'"
  by (simp add: kept_def dev_call_eq)

lemma kept_fold_dev_call [simp]: "kept c (fold (dev_call ev f) is c') = kept c c'"
  by (simp add: kept_def fold_dev_call)

lemma kept_start_each:
  assumes "\<And>i c. kept c (snd (f i c))" and "kept c c0"
  shows "kept c (snd (start_each f is c0))"
  using assms(2)
proof (induction "is" arbitrary: c0)
  case Nil
  then show ?case by simp
next
  case (Cons i "is")
  obtain b c' where fc: "f i c0 = (b, c')" by (cases "f i c0")
  with assms(1) [of c0 i] Cons.prems have k: "kept c c'" by (auto intro: kept_trans)
  show ?case
  proof (cases b)
    case True
    with fc k show ?thesis by simp
  next
    case False
    with fc have "start_each f (i # is) c0 = start_each f is c'" by simp
    with Cons.IH [OF k] show ?thesis by simp
  qed
qed

lemma kept_allocator_start [simp]: "kept c (snd (bch2_dev_allocator_start e i c))"
  by (simp add: bch2_dev_allocator_start_def)

lemma kept_dev_journal_alloc [simp]: "kept c (snd (bch2_dev_journal_alloc e i c))"
  by (simp add: bch2_dev_journal_alloc_def)

lemma step_kept_Inr [simp]: "step_kept c (Inr c') = kept c c'"
  by (simp add: step_kept_def)

lemma step_kept_Inl [simp]: "step_kept c (Inl (err, ret, c')) = kept c c'"
  by (simp add: step_kept_def)

lemma step_kept_trans: "kept c c' \<Longrightarrow> step_kept c' r \<Longrightarrow> step_kept c r"
  by (auto simp: step_kept_def split: sum.splits intro: kept_trans)

lemma step_kept_and_then:
  assumes "step_kept c r" and "\<And>c'. step_kept c' (f c')"
  shows "step_kept c (and_then r f)"
proof (cases r)
  case (Inl x)
  with assms(1) show ?thesis by (simp add: and_then_def)
next
  case (Inr c')
  with assms(1) have "kept c c'" by simp
  from step_kept_trans [OF this assms(2)] Inr show ?thesis
    by (simp add: and_then_def)
qed

lemma step_kept_if: "step_kept c a \<Longrightarrow> step_kept c b \<Longrightarrow> step_kept c (if P then a else b)"
  by simp

lemma step_kept_check_ret: "kept c (snd r) \<Longrightarrow> step_kept c (check_ret err r)"
  by (cases r) (simp add: check_ret_def)

lemma step_kept_check_fail: "kept c (snd r) \<Longrightarrow> step_kept c (check_fail err r)"
  by (cases r) (simp add: check_fail_def)

lemma kept_btree_root [simp]: "kept c (c\<lparr>btree_roots := r\<rparr>)"
  by (simp add: kept_def)

lemma step_kept_read_btree_roots: "step_kept c (read_btree_roots e is c)"
proof (induction "is" arbitrary: c)
  case Nil
  then show ?case by simp
next
  case (Cons i "is")
  have "step_kept c (read_btree_roots e is
      (log_event (Ev_btree_root_read i) (c\<lparr>btree_roots := i # btree_roots c\<rparr>)))"
    by (rule step_kept_trans [OF _ Cons.IH]) simp
  with Cons.IH [of c] show ?case
    by (simp add: bch2_btree_root_read_def)
qed

lemma step_kept_alloc_btree_roots: "step_kept c (alloc_btree_roots e m is c)"
proof (induction "is" arbitrary: c)
  case Nil
  then show ?case by simp
next
  case (Cons i "is")
  have "step_kept c (alloc_btree_roots e m is
      (log_event (Ev_btree_root_alloc i) (c\<lparr>btree_roots := i # btree_roots c\<rparr>)))"
    by (rule step_kept_trans [OF _ Cons.IH]) simp
  with Cons.IH [of c] show ?case
    by (cases m) (simp_all add: bch2_btree_root_alloc_def)
qed

lemma kept_journal_start [simp]: "kept c (bch2_journal_start c') = kept c c'"
  by (simp add: bch2_journal_start_def kept_def log_event_def)

lemma kept_journal_set_replay_done [simp]:
  "kept c (bch2_journal_set_replay_done c') = kept c c'"
  by (simp add: bch2_journal_set_replay_done_def kept_def)

lemma kept_alloc_read_done [simp]:
  "kept c (c\<lparr>fs_flags := insert BCH_FS_ALLOC_READ_DONE (fs_flags c)\<rparr>)"
  by (simp add: kept_def)

lemma kept_journal_replay [simp]: "kept c (snd (bch2_journal_replay e c))"
  by (simp add: bch2_journal_replay_def kept_def log_event_def)

lemma step_kept_start_existing: "step_kept c (start_existing e c)"
  unfolding start_existing_def
  by (intro step_kept_and_then step_kept_if step_kept_check_ret step_kept_check_fail
      step_kept_read_btree_roots step_kept_alloc_btree_roots kept_start_each)
    (simp_all add: bch2_journal_read_def bch2_alloc_read_def bch2_initial_gc_def bch2_fsck_def)

lemma step_kept_start_fresh: "step_kept c (start_fresh e c)"
  unfolding start_fresh_def
  by (intro step_kept_and_then step_kept_if step_kept_check_ret step_kept_check_fail
      step_kept_read_btree_roots step_kept_alloc_btree_roots kept_start_each)
    (simp_all add: bch2_initial_gc_def bch2_btree_insert_root_inode_def bch2_journal_meta_def)

lemma kept_rw_added: "kept c (bch2_recalc_capacity (fold bch2_dev_allocator_add (rw_members c) c))"
  by (simp add: bch2_recalc_capacity_def bch2_dev_allocator_add_def)

lemma bch2_fs_read_only_kept:
  "sb_uuid (disk_sb (bch2_fs_read_only c)) = sb_uuid (disk_sb c)
   \<and> c_sb_uuid (bch2_fs_read_only c) = c_sb_uuid c
   \<and> list_linked (bch2_fs_read_only c) = list_linked c
   \<and> opts (bch2_fs_read_only c) = opts c
   \<and> fs_state (bch2_fs_read_only c) = (if may_tear_down c then BCH_FS_RO else fs_state c)"
proof (cases "may_tear_down c")
  case True
  then have "fs_state c = BCH_FS_STARTING \<or> fs_state c = BCH_FS_RW" "BCH_FS_ERROR \<notin> fs_flags c"
    by (simp_all add: may_tear_down_def)
  from bch2_fs_read_only_eq [OF this] True show ?thesis by simp
next
  case False
  then have "bch2_fs_read_only c = c"
    by (auto simp: bch2_fs_read_only_def may_tear_down_def)
  with False show ?thesis by simp
qed

lemma start_write_super_fields [simp]:
  "fs_state (start_write_super e c) = fs_state c"
  "c_sb_uuid (start_write_super e c) = c_sb_uuid c"
  "sb_uuid (disk_sb (start_write_super e c)) = sb_uuid (disk_sb c)"
  "list_linked (start_write_super e c) = list_linked c"
  "opts (start_write_super e c) = opts c"
  by (simp_all add: start_write_super_def bch2_write_super_def log_event_def)

lemma step_kept_start_recovery: "step_kept c (start_recovery e c)"
  unfolding start_recovery_def Let_def
  by (rule step_kept_trans [OF kept_rw_added])
    (simp add: step_kept_start_existing step_kept_start_fresh)

lemma uu_bch2_fs_start_eq:
  "uu_bch2_fs_start e c =
     (if fs_state c \<noteq> BCH_FS_STARTING then None
      else case and_then (start_recovery e c) (start_go_ro_or_rw e) of
             Inr c2 \<Rightarrow> Some (None, start_write_super e c2)
           | Inl (err, ret, c2) \<Rightarrow>
               Some (Some (start_err_msg err ret),
                     c2\<lparr>fs_flags := insert BCH_FS_ERROR (fs_flags c2)\<rparr>))"
  by (simp add: uu_bch2_fs_start_def start_recovery_def Let_def)


lemma uu_bch2_fs_start_read_only:
  assumes "uu_bch2_fs_start e c = Some (err, c')" and "read_only (opts c) \<noteq> 0"
  shows "fs_state c' = (if err = None \<and> BCH_FS_ERROR \<notin> fs_flags c then BCH_FS_RO else BCH_FS_STARTING)"
proof -
  from assms(1) have st: "fs_state c = BCH_FS_STARTING"
    by (auto simp: uu_bch2_fs_start_eq split: if_splits)
  show ?thesis
  proof (cases "start_recovery e c")
    case (Inl x)
    obtain m r c2 where x: "x = (m, r, c2)" by (cases x)
    with Inl step_kept_start_recovery [of c e] have "kept c c2" by simp
    with assms(1) st Inl x show ?thesis
      by (auto simp: uu_bch2_fs_start_eq and_then_def kept_def)
  next
    case (Inr c2)
    with step_kept_start_recovery [of c e] have k: "kept c c2" by simp
    then have mt: "may_tear_down c2 = (BCH_FS_ERROR \<notin> fs_flags c)"
      using st by (simp add: kept_def may_tear_down_def)
    from k assms(2) have ro: "read_only (opts c2) \<noteq> 0" by (simp add: kept_def)
    from assms(1) st Inr ro k mt show ?thesis
      using bch2_fs_read_only_kept [of c2]
      by (auto simp: uu_bch2_fs_start_eq and_then_def start_go_ro_or_rw_def kept_def
          split: if_splits)
  qed
qed


section \<open>Allocation and the first startup\<close>

lemma bch2_dev_alloc_devs:
  "bch2_dev_alloc e c i = Some (r, c') \<Longrightarrow> \<exists>ds. c' = c\<lparr>devs := ds\<rparr>"
proof -
  assume a: "bch2_dev_alloc e c i = Some (r, c')"
  have "c' = c \<or> (\<exists>ca. c' = set_dev i ca c)"
    using a by (simp add: bch2_dev_alloc_def Let_def split: if_splits option.splits) blast
  then show ?thesis
  proof
    assume "c' = c"
    then have "c' = c\<lparr>devs := devs c\<rparr>" by simp
    then show ?thesis ..
  next
    assume "\<exists>ca. c' = set_dev i ca c"
    then show ?thesis by (auto simp: set_dev_def)
  qed
qed


lemma fs_alloc_devs_devs:
  "fs_alloc_devs e is c = Some (r, c') \<Longrightarrow> \<exists>ds. c' = c\<lparr>devs := ds\<rparr>"
proof (induction "is" arbitrary: c)
  case Nil
  then have "c' = c\<lparr>devs := devs c\<rparr>" by simp
  then show ?case ..
next
  case (Cons i "is")
  show ?case
  proof (cases "bch2_dev_exists (disk_sb c) i")
    case False
    with Cons show ?thesis by simp
  next
    case True
    with Cons.prems obtain r1 c1 where a: "bch2_dev_alloc e c i = Some (r1, c1)"
      by (cases "bch2_dev_alloc e c i") auto
    from bch2_dev_alloc_devs [OF a] obtain ds where c1: "c1 = c\<lparr>devs := ds\<rparr>" by blast
    show ?thesis
    proof (cases r1)
      case None
      with a True Cons.prems have "fs_alloc_devs e is c1 = Some (r, c')" by simp
      from Cons.IH [OF this] obtain ds' where "c' = c1\<lparr>devs := ds'\<rparr>" by blast
      with c1 have "c' = c\<lparr>devs := ds'\<rparr>" by simp
      then show ?thesis ..
    next
      case (Some err)
      with a True Cons.prems have "c' = c1" by simp
      with c1 show ?thesis by blast
    qed
  qed
qed

lemma bch2_fs_alloc_eq:
  "bch2_fs_alloc e sb o1 =
     (if fs_alloc_nomem e \<or> sb_to_fs_fails e \<or> init_fault e ''fs_alloc'' then Some None
      else case fs_alloc_devs e [0..<sb_nr_devices sb] (fs_alloc_init e sb o1) of
             None \<Rightarrow> None
           | Some (True, c2) \<Rightarrow> Some None
           | Some (False, c2) \<Rightarrow> Some (Some c2))"
proof -
  have n: "c_sb_nr_devices (bch2_sb_update (fs_zeroed e sb)) = sb_nr_devices sb"
    by (simp add: bch2_sb_update_def fs_zeroed_def)
  have "bch2_sb_update ((fs_zeroed e sb)\<lparr>disk_sb := sb\<rparr>) = bch2_sb_update (fs_zeroed e sb)"
    by (simp add: fs_zeroed_def)
  then show ?thesis
    by (simp add: bch2_fs_alloc_def bch2_sb_to_fs_def Let_def n
        fs_alloc_init_def [symmetric])
qed

lemma bch2_fs_alloc_props:
  assumes "bch2_fs_alloc e sb o1 = Some (Some c)"
  shows "opts c = merge_opts e sb o1" "fs_state c = BCH_FS_STARTING" "fs_flags c = {}"
    "\<not> list_linked c" "disk_sb c = sb" "c_sb_uuid c = sb_uuid sb"
proof -
  from assms have d: "fs_alloc_devs e [0..<sb_nr_devices sb] (fs_alloc_init e sb o1) = Some (False, c)"
    by (simp add: bch2_fs_alloc_eq split: if_splits option.splits prod.splits bool.splits)
  from fs_alloc_devs_devs [OF d] obtain ds where
    "c = (fs_alloc_init e sb o1)\<lparr>devs := ds\<rparr>"
    by auto
  then show "opts c = merge_opts e sb o1" "fs_state c = BCH_FS_STARTING" "fs_flags c = {}"
    "\<not> list_linked c" "disk_sb c = sb" "c_sb_uuid c = sb_uuid sb"
    by (simp_all add: fs_alloc_init_def bch2_sb_update_def fs_zeroed_def)
qed


lemma bch2_sb_to_fs_fields:
  "opts (snd (bch2_sb_to_fs e sb c)) = opts c"
  "fs_state (snd (bch2_sb_to_fs e sb c)) = fs_state c"
  "fs_flags (snd (bch2_sb_to_fs e sb c)) = fs_flags c"
  "list_linked (snd (bch2_sb_to_fs e sb c)) = list_linked c"
  by (simp_all add: bch2_sb_to_fs_def bch2_sb_update_def)

lemma uu_bch2_dev_online_fields1:
  assumes "uu_bch2_dev_online e c sb = Some (r, c')"
  shows "opts c' = opts (dev_online_sb e c sb) \<and> fs_state c' = fs_state (dev_online_sb e c sb)
       \<and> fs_flags c' = fs_flags (dev_online_sb e c sb)
       \<and> list_linked c' = list_linked (dev_online_sb e c sb)
       \<and> disk_sb c' = disk_sb (dev_online_sb e c sb)
       \<and> c_sb_uuid c' = c_sb_uuid (dev_online_sb e c sb)
       \<and> c_sb_nr_devices c' = c_sb_nr_devices (dev_online_sb e c sb)"
proof -
  let ?c1 = "dev_online_sb e c sb"
  from assms obtain ca where ca: "dev_slot ?c1 (sb_dev_idx sb) = Some ca"
    by (cases "dev_slot ?c1 (sb_dev_idx sb)")
      (simp_all add: uu_bch2_dev_online_def dev_online_sb_def [symmetric] Let_def split: if_splits)
  show ?thesis
  proof (cases "disk_sb_bdev ca \<or> dev_journal_init_fails e (sb_dev_idx sb)")
    case True
    with assms ca have "c' = ?c1"
      by (auto simp add: uu_bch2_dev_online_def dev_online_sb_def [symmetric] Let_def
          split: if_splits)
    then show ?thesis by simp
  next
    case False
    with assms ca show ?thesis
      by (cases "mi_state (mi ca) = BCH_MEMBER_STATE_RW")
        (auto simp add: uu_bch2_dev_online_def dev_online_sb_def [symmetric] Let_def
          set_dev_def upd_dev_eq bch2_dev_allocator_add_def dev_call_eq split: if_splits)
  qed
qed

lemma uu_bch2_dev_online_fields:
  assumes "uu_bch2_dev_online e c sb = Some (r, c')"
  shows "opts c' = opts c \<and> fs_state c' = fs_state c \<and> fs_flags c' = fs_flags c
       \<and> list_linked c' = list_linked c"
  using uu_bch2_dev_online_fields1 [OF assms] bch2_sb_to_fs_fields [of e sb c]
  by (simp add: dev_online_sb_def)


lemma online_each_fields:
  "online_each e c sbs = Some (r, c') \<Longrightarrow>
     opts c' = opts c \<and> fs_state c' = fs_state c \<and> fs_flags c' = fs_flags c
       \<and> list_linked c' = list_linked c"
proof (induction sbs arbitrary: c)
  case Nil
  then show ?case by simp
next
  case (Cons sb sbs)
  from Cons.prems obtain r1 c1 where a: "uu_bch2_dev_online e c sb = Some (r1, c1)"
    by (cases "uu_bch2_dev_online e c sb") auto
  note f = uu_bch2_dev_online_fields [OF a]
  show ?case
  proof (cases r1)
    case None
    with a Cons.prems have "online_each e c1 sbs = Some (r, c')" by simp
    from Cons.IH [OF this] f show ?thesis by simp
  next
    case (Some err)
    with a Cons.prems have "c' = c1" by simp
    with f show ?thesis by simp
  qed
qed

lemma merge_opts_forces:
  "(noreplay (merge_opts e sb o1) \<noteq> 0 \<longrightarrow> nochanges (merge_opts e sb o1) \<noteq> 0)
   \<and> (nochanges (merge_opts e sb o1) \<noteq> 0 \<longrightarrow> read_only (merge_opts e sb o1) \<noteq> 0)"
  by (simp add: merge_opts_def Let_def or_eq_0_iff)

lemma merge_opts_noreplay:
  "0 \<le> sint (noreplay o1) \<Longrightarrow> noreplay (merge_opts e sb o1) = noreplay o1"
  by (simp add: merge_opts_def Let_def bch2_opts_apply_def opt_apply_def)

lemma case_allocD:
  "(case x of Some (Some c) \<Rightarrow> P c | _ \<Rightarrow> False) \<Longrightarrow> \<exists>c. x = Some (Some c) \<and> P c"
  by (cases x) (auto split: option.splits)

lemma case_okD:
  "(case x of Some (None, c) \<Rightarrow> P c | _ \<Rightarrow> False) \<Longrightarrow> \<exists>c. x = Some (None, c) \<and> P c"
proof (cases x)
  case None
  then show "(case x of Some (None, c) \<Rightarrow> P c | _ \<Rightarrow> False) \<Longrightarrow> ?thesis" by simp
next
  case (Some y)
  obtain r c where y: "y = (r, c)" by (cases y)
  assume "case x of Some (None, c) \<Rightarrow> P c | _ \<Rightarrow> False"
  with Some y show ?thesis by (cases r) simp_all
qed

lemma startup_noreplay_runs:
  "case bch2_fs_alloc env_ok sb2 opts_noreplay of
     Some (Some c0) \<Rightarrow>
       (case online_each env_ok c0 sbs2 of
          Some (None, c) \<Rightarrow>
            (case uu_bch2_fs_start env_ok c of Some (None, c') \<Rightarrow> True | _ \<Rightarrow> False)
        | _ \<Rightarrow> False)
   | _ \<Rightarrow> False"
  by code_simp

text \<open>
  C10. In the option merge of \<open>bch2_fs_alloc\<close>, \<open>noreplay\<close> forces
  \<open>nochanges\<close> and \<open>nochanges\<close> forces \<open>read_only\<close>; a \<open>noreplay\<close> that the
  caller gives and sets is set in the merged options. An instance allocated with
  \<open>noreplay\<close> set, whose devices were brought online, is never in state RW after
  \<open>__bch2_fs_start\<close>, and is in state RO when the startup succeeds.
\<close>

theorem bch2_fs_alloc_noreplay_read_only:
  assumes "bch2_fs_alloc e sb o1 = Some (Some c0)"
  shows "(noreplay (opts c0) \<noteq> 0 \<longrightarrow> nochanges (opts c0) \<noteq> 0)
       \<and> (nochanges (opts c0) \<noteq> 0 \<longrightarrow> read_only (opts c0) \<noteq> 0)
       \<and> (0 \<le> sint (noreplay o1) \<and> noreplay o1 \<noteq> 0 \<longrightarrow> noreplay (opts c0) \<noteq> 0)
       \<and> (noreplay (opts c0) \<noteq> 0 \<and> online_each e1 c0 sbs = Some (None, c)
            \<and> uu_bch2_fs_start e2 c = Some (err, c')
          \<longrightarrow> fs_state c' \<noteq> BCH_FS_RW \<and> (err = None \<longrightarrow> fs_state c' = BCH_FS_RO))"
proof -
  note p = bch2_fs_alloc_props [OF assms]
  have a: "noreplay (opts c0) \<noteq> 0 \<longrightarrow> nochanges (opts c0) \<noteq> 0"
    and b: "nochanges (opts c0) \<noteq> 0 \<longrightarrow> read_only (opts c0) \<noteq> 0"
    using merge_opts_forces [of e sb o1] by (simp_all add: p(1))
  have r: "0 \<le> sint (noreplay o1) \<and> noreplay o1 \<noteq> 0 \<longrightarrow> noreplay (opts c0) \<noteq> 0"
    by (simp add: p(1) merge_opts_noreplay)
  have s: "fs_state c' \<noteq> BCH_FS_RW \<and> (err = None \<longrightarrow> fs_state c' = BCH_FS_RO)"
    if "noreplay (opts c0) \<noteq> 0" "online_each e1 c0 sbs = Some (None, c)"
      "uu_bch2_fs_start e2 c = Some (err, c')"
  proof -
    from online_each_fields [OF that(2)] p(3) have "opts c = opts c0" "fs_flags c = {}"
      by simp_all
    with that(1) a b have "read_only (opts c) \<noteq> 0" "BCH_FS_ERROR \<notin> fs_flags c" by simp_all
    with uu_bch2_fs_start_read_only [OF that(3)] show ?thesis by simp
  qed
  from a b r s show ?thesis by blast
qed


theorem bch2_fs_alloc_noreplay_read_only_witness:
  "\<exists>c0 c c'. bch2_fs_alloc env_ok sb2 opts_noreplay = Some (Some c0)
     \<and> 0 \<le> sint (noreplay opts_noreplay) \<and> noreplay opts_noreplay \<noteq> 0
     \<and> noreplay (opts c0) \<noteq> 0 \<and> nochanges (opts c0) \<noteq> 0 \<and> read_only (opts c0) \<noteq> 0
     \<and> online_each env_ok c0 sbs2 = Some (None, c)
     \<and> uu_bch2_fs_start env_ok c = Some (None, c') \<and> fs_state c' = BCH_FS_RO"
proof -
  from case_allocD [OF startup_noreplay_runs] obtain c0 where
    a: "bch2_fs_alloc env_ok sb2 opts_noreplay = Some (Some c0)"
    and r1: "case online_each env_ok c0 sbs2 of
          Some (None, c) \<Rightarrow>
            (case uu_bch2_fs_start env_ok c of Some (None, c') \<Rightarrow> True | _ \<Rightarrow> False)
        | _ \<Rightarrow> False"
    by blast
  from case_okD [OF r1] obtain c where
    b: "online_each env_ok c0 sbs2 = Some (None, c)"
    and r2: "case uu_bch2_fs_start env_ok c of Some (None, c') \<Rightarrow> True | _ \<Rightarrow> False"
    by blast
  from case_okD [OF r2] obtain c' where
    s: "uu_bch2_fs_start env_ok c = Some (None, c')"
    by blast
  have g: "0 \<le> sint (noreplay opts_noreplay)" "noreplay opts_noreplay \<noteq> 0"
    by (simp_all add: opts_noreplay_def opts_empty_def)
  from bch2_fs_alloc_noreplay_read_only [OF a, of env_ok sbs2 c env_ok None c'] g b s
  have "noreplay (opts c0) \<noteq> 0 \<and> nochanges (opts c0) \<noteq> 0 \<and> read_only (opts c0) \<noteq> 0
     \<and> fs_state c' = BCH_FS_RO"
    by simp
  with a b s g show ?thesis by blast
qed


section \<open>The list of open filesystems\<close>

lemma rw_tiering_kept: "kept c (rw_tiering e c)"
  by (simp add: rw_tiering_def bch2_tiering_start_def rw_moving_gc_def start_each_moving_gc
      rw_gc_def bch2_gc_thread_start_def rw_allocators_def start_each_allocator rw_added_def
      bch2_recalc_capacity_def bch2_dev_allocator_add_def fold_dev_call log_event_def kept_def)












lemma uuid_at_list_update [simp]: "uuid_at (w\<lparr>bch_fs_list := l\<rparr>) = uuid_at w"
  by (simp add: fun_eq_iff uuid_at_def)

lemma listed_ok_list_update [simp]: "listed_ok (w\<lparr>bch_fs_list := l\<rparr>) = listed_ok w"
  by (simp add: fun_eq_iff listed_ok_def)






lemma slot_update_same: "i < length ds \<Longrightarrow> slot (ds[i := x]) i = x"
  by (simp add: slot_def)

lemma uu_bch2_dev_online_attached:
  assumes "uu_bch2_dev_online e c sb = Some (None, c1)"
  shows "\<exists>ca. dev_slot c1 (sb_dev_idx sb) = Some ca \<and> disk_sb_bdev ca \<and> io_ref ca"
proof -
  let ?c = "dev_online_sb e c sb"
  let ?i = "sb_dev_idx sb"
  from assms obtain ca where ca: "dev_slot ?c ?i = Some ca"
    by (cases "dev_slot ?c ?i")
      (simp_all add: uu_bch2_dev_online_def dev_online_sb_def [symmetric] Let_def split: if_splits)
  then have len: "?i < length (devs ?c)"
    by (simp add: dev_slot_def slot_def split: if_splits)
  from assms ca have nf: "\<not> disk_sb_bdev ca" "\<not> dev_journal_init_fails e ?i"
    by (auto simp add: uu_bch2_dev_online_def dev_online_sb_def [symmetric] Let_def
        split: if_splits)
  show ?thesis
  proof (cases "mi_state (mi ca) = BCH_MEMBER_STATE_RW")
    case True
    with assms ca nf len show ?thesis
      by (auto simp add: uu_bch2_dev_online_def dev_online_sb_def [symmetric] Let_def
          set_dev_def upd_dev_eq bch2_dev_allocator_add_def dev_call_eq dev_slot_def
          slot_update_same split: if_splits)
  next
    case False
    with assms ca nf len show ?thesis
      by (auto simp add: uu_bch2_dev_online_def dev_online_sb_def [symmetric] Let_def
          set_dev_def upd_dev_eq dev_slot_def slot_update_same split: if_splits)
  qed
qed















end
